theory Spec2Isabelle
  imports Main
begin

section \<open>The S3 store of tus-node-server (src/lib/stores/S3Store.ts)\<close>

text \<open>
  The store is a class whose methods chain promises over an aws-sdk client. The
  embedding makes three things explicit.

  \<^item> State. A method is a function of the store's state: the metadata cache
    (\<open>this.cache\<close>), the state of the object store behind the client, and the list of
    the requests sent so far, in the order in which they were sent. The removal of a
    chunk file is listed with the event that leads to it (behind the request of the
    chunk's upload, if there is one), also when the upload settles later.
  \<^item> Failure. A rejected promise (or an exception inside a callback) is \<open>Inl e\<close>, a
    resolved one is \<open>Inr v\<close>.
  \<^item> Order. The state of the object store is all that its answers depend on, the
    requests in flight included: a request changes it, and its answer is fixed, when
    the request is sent. Where the code starts two operations before awaiting either,
    the requests are sent in the order in which the operations are started. An
    operation that the code awaits has settled where the code goes on. The uploads of
    the part coordinator are not awaited one by one: the time at which each of them
    settles is a parameter of the model (\<open>upload_settles\<close>), and \<open>Promise.all\<close> over
    them rejects with the rejection that comes first in time.

  The aws-sdk client, \<open>JSON\<close>, \<open>Buffer\<close> and the constants of \<open>../constants\<close> are not
  part of the file: they are parameters of the model (the record \<open>env\<close>).
  The \<open>FileStreamSplitter\<close> is not part of the file either: what it emits while the
  request body is piped through it is the model's \<open>readable\<close>.
\<close>

subsection \<open>JavaScript values\<close>

text \<open>
  The fields \<open>upload_length\<close> and \<open>upload_defer_length\<close> are untyped. They hold what the
  front end stored: a number, a string (a header value) or nothing. Numbers are the
  integers; byte counts stay in the range in which a JavaScript number is exact.
\<close>

datatype jsval = Undefined | NaN | Num int | Str string

fun digits :: "nat \<Rightarrow> string" where
  "digits n =
     (if n < 10 then [''0123456789'' ! n]
      else digits (n div 10) @ [''0123456789'' ! (n mod 10)])"

declare digits.simps [simp del]

definition ToString :: "int \<Rightarrow> string" where
  "ToString i = (if i < 0 then CHR ''-'' # digits (nat (- i)) else digits (nat i))"

text \<open>\<open>current_size += size\<close>, where \<open>size\<close> is a number.\<close>

fun js_add :: "jsval \<Rightarrow> int \<Rightarrow> jsval" where
  "js_add (Num a) n = Num (a + n)"
| "js_add (Str s) n = Str (s @ ToString n)"
| "js_add Undefined n = NaN"
| "js_add NaN n = NaN"

text \<open>
  A string is a list of code units below 256: the strings of the model have no character
  above U+00FF. \<open>StrWhiteSpaceChar\<close> holds of the white space and the line terminators
  of ECMAScript in that range: TAB, LF, VT, FF, CR, SP and NBSP.
\<close>

definition StrWhiteSpaceChar :: "char \<Rightarrow> bool" where
  "StrWhiteSpaceChar c =
     (c \<in> set [CHR 0x09, CHR 0x0A, CHR 0x0B, CHR 0x0C, CHR 0x0D, CHR 0x20, CHR 0xA0])"

definition is_digit :: "char \<Rightarrow> bool" where
  "is_digit c = (c \<in> set ''0123456789'')"

text \<open>The value of a decimal digit is its position in the string of the digits.\<close>

definition digit_value :: "char \<Rightarrow> int" where
  "digit_value c = int (length (takeWhile (\<lambda>d. d \<noteq> c) ''0123456789''))"

text \<open>
  \<open>Number.parseInt(v, 10)\<close>: leading white space, an optional sign, then the longest run
  of decimal digits; \<open>None\<close> is the result \<open>NaN\<close>. A number is converted to its decimal
  string first, which reads back as the same integer.
\<close>

definition parseInt_string :: "string \<Rightarrow> int option" where
  "parseInt_string s =
     (let t = dropWhile StrWhiteSpaceChar s;
          sign = (if t \<noteq> [] \<and> hd t = CHR ''-'' then - 1 else 1);
          u = (if t \<noteq> [] \<and> (hd t = CHR ''-'' \<or> hd t = CHR ''+'') then tl t else t);
          z = takeWhile is_digit u
      in if z = [] then None
         else Some (sign * foldl (\<lambda>a c. 10 * a + digit_value c) 0 z))"

fun Number_parseInt :: "jsval \<Rightarrow> int option" where
  "Number_parseInt Undefined = None"
| "Number_parseInt NaN = None"
| "Number_parseInt (Num n) = Some n"
| "Number_parseInt (Str s) = parseInt_string s"

text \<open>\<open>n === v\<close> where \<open>n\<close> is the result of \<open>Number.parseInt\<close>: \<open>NaN\<close> equals nothing,
  and a number equals only the same number.\<close>

fun strict_equals :: "int option \<Rightarrow> jsval \<Rightarrow> bool" where
  "strict_equals (Some n) (Num m) = (n = m)"
| "strict_equals _ _ = False"

definition jsval_of :: "string option \<Rightarrow> jsval" where
  "jsval_of s = (case s of None \<Rightarrow> Undefined | Some t \<Rightarrow> Str t)"

text \<open>\<open>String.prototype.split\<close> with a separator of one character.\<close>

fun js_split :: "char \<Rightarrow> string \<Rightarrow> string list" where
  "js_split sep [] = [[]]"
| "js_split sep (c # cs) =
     (if c = sep then [] # js_split sep cs
      else (case js_split sep cs of [] \<Rightarrow> [[c]] | w # ws \<Rightarrow> (c # w) # ws))"

subsection \<open>Errors\<close>

text \<open>
  \<open>ServiceError code statusCode\<close> is an error object made outside the file (by the
  aws-sdk, or by the request stream); \<open>Error msg\<close> is \<open>new Error(msg)\<close>, \<open>ErrorOf e\<close> is
  \<open>new Error(e)\<close>; \<open>FILE_NOT_FOUND\<close> is \<open>ERRORS.FILE_NOT_FOUND\<close>.
\<close>

datatype error =
    ServiceError "string option" "int option"
  | Error string
  | ErrorOf error
  | TypeError
  | SyntaxError
  | FILE_NOT_FOUND

fun code :: "error \<Rightarrow> string option" where
  "code (ServiceError c s) = c"
| "code _ = None"

fun statusCode :: "error \<Rightarrow> int option" where
  "statusCode (ServiceError c s) = s"
| "statusCode _ = None"

subsection \<open>Data\<close>

record upload =
  id' :: string
  upload_length :: jsval
  upload_defer_length :: jsval
  upload_metadata :: "string option"

record part =
  PartNumber :: int
  Size :: int
  ETag :: string

text \<open>A cache entry: the user metadata of the sidecar object, with \<open>file\<close> (here \<open>file'\<close>) and
  \<open>upload_id\<close> replaced. \<open>file = None\<close> is a parsed value that is not an object
  (\<open>null\<close>).\<close>

record session =
  Metadata :: "(string \<times> string) list"
  file' :: "upload option"
  upload_id :: "string option"

text \<open>What \<open>getOffset\<close> returns; \<open>file_props\<close> is the spread \<open>...this.cache[id].file\<close>.\<close>

record offset =
  file_props :: "upload option"
  size' :: jsval
  upload_length' :: jsval
  upload_defer_length' :: jsval
  parts :: "part list option"

record parts_page =
  Parts :: "part list"
  NextPartNumberMarker :: "int option"

record parsed =
  encoded :: "string option"
  decoded :: "string option"

subsection \<open>The object store and the file system\<close>

text \<open>
  The requests the store sends, with their parameters in the order Bucket, Key, then the
  rest; \<open>FsRm path\<close> is \<open>fs.rm(path)\<close>. The body of an uploaded part is the chunk file,
  named by its path.
\<close>

datatype call =
    HeadBucket string
  | CreateMultipartUpload string string "(string \<times> jsval) list" "jsval option"
  | PutObject string string string "(string \<times> jsval) list"
  | HeadObject string string
  | UploadPart string string "string option" int string
  | ListParts string string "string option" "int option"
  | CompleteMultipartUpload string string "string option" "(string \<times> int) list"
  | FsRm string

text \<open>
  The client answers a request from the state \<open>'w\<close> of the object store and changes it.
  \<open>s3_headBucket\<close> answers whether the response data is truthy,
  \<open>s3_createMultipartUpload\<close> the \<open>UploadId\<close>, \<open>s3_headObject\<close> the object's
  \<open>Metadata\<close>, \<open>s3_uploadPart\<close> the \<open>ETag\<close>, \<open>s3_completeMultipartUpload\<close> the
  \<open>Location\<close>.

  \<open>upload_settles i\<close> is the time at which the upload started for the \<open>i\<close>-th finished
  chunk of a request body settles (the first chunk is chunk 0): 0 when it has settled
  by the time the pipeline of that body ends, a larger number when it settles after
  that, the later the larger.
\<close>

record 'w client =
  s3_headBucket :: "string \<Rightarrow> 'w \<Rightarrow> (error + bool) \<times> 'w"
  s3_createMultipartUpload ::
    "string \<Rightarrow> string \<Rightarrow> (string \<times> jsval) list \<Rightarrow> jsval option \<Rightarrow> 'w \<Rightarrow> (error + string) \<times> 'w"
  s3_putObject ::
    "string \<Rightarrow> string \<Rightarrow> string \<Rightarrow> (string \<times> jsval) list \<Rightarrow> 'w \<Rightarrow> (error + unit) \<times> 'w"
  s3_headObject :: "string \<Rightarrow> string \<Rightarrow> 'w \<Rightarrow> (error + (string \<times> string) list) \<times> 'w"
  s3_uploadPart ::
    "string \<Rightarrow> string \<Rightarrow> string option \<Rightarrow> int \<Rightarrow> string \<Rightarrow> 'w \<Rightarrow> (error + string) \<times> 'w"
  s3_listParts ::
    "string \<Rightarrow> string \<Rightarrow> string option \<Rightarrow> int option \<Rightarrow> 'w \<Rightarrow> (error + parts_page) \<times> 'w"
  s3_completeMultipartUpload ::
    "string \<Rightarrow> string \<Rightarrow> string option \<Rightarrow> (string \<times> int) list \<Rightarrow> 'w \<Rightarrow> (error + string) \<times> 'w"

record 'w env =
  bucket_name :: string
  client :: "'w client"
  TUS_RESUMABLE :: string
  JSON_stringify :: "upload \<Rightarrow> string"
  JSON_parse :: "string \<Rightarrow> error + upload option"
  base64_ascii :: "string \<Rightarrow> string"
  upload_settles :: "nat \<Rightarrow> nat"

record 'w state =
  cache :: "string \<rightharpoonup> session"
  s3 :: 'w
  trace :: "call list"

definition sent :: "call \<Rightarrow> 'r \<times> 'w \<Rightarrow> 'w state \<Rightarrow> 'r \<times> 'w state" where
  "sent c rw st = (fst rw, st\<lparr>s3 := snd rw, trace := trace st @ [c]\<rparr>)"

definition fs_rm :: "string \<Rightarrow> 'w state \<Rightarrow> 'w state" where
  "fs_rm p st = st\<lparr>trace := trace st @ [FsRm p]\<rparr>"

definition call_headBucket :: "'w env \<Rightarrow> string \<Rightarrow> 'w state \<Rightarrow> (error + bool) \<times> 'w state" where
  "call_headBucket env b st = sent (HeadBucket b) (s3_headBucket (client env) b (s3 st)) st"

definition call_createMultipartUpload ::
  "'w env \<Rightarrow> string \<Rightarrow> string \<Rightarrow> (string \<times> jsval) list \<Rightarrow> jsval option \<Rightarrow> 'w state
    \<Rightarrow> (error + string) \<times> 'w state" where
  "call_createMultipartUpload env b k m ct st =
     sent (CreateMultipartUpload b k m ct)
       (s3_createMultipartUpload (client env) b k m ct (s3 st)) st"

definition call_putObject ::
  "'w env \<Rightarrow> string \<Rightarrow> string \<Rightarrow> string \<Rightarrow> (string \<times> jsval) list \<Rightarrow> 'w state
    \<Rightarrow> (error + unit) \<times> 'w state" where
  "call_putObject env b k body m st =
     sent (PutObject b k body m) (s3_putObject (client env) b k body m (s3 st)) st"

definition call_headObject ::
  "'w env \<Rightarrow> string \<Rightarrow> string \<Rightarrow> 'w state \<Rightarrow> (error + (string \<times> string) list) \<times> 'w state" where
  "call_headObject env b k st = sent (HeadObject b k) (s3_headObject (client env) b k (s3 st)) st"

definition call_uploadPart ::
  "'w env \<Rightarrow> string \<Rightarrow> string \<Rightarrow> string option \<Rightarrow> int \<Rightarrow> string \<Rightarrow> 'w state
    \<Rightarrow> (error + string) \<times> 'w state" where
  "call_uploadPart env b k u n body st =
     sent (UploadPart b k u n body) (s3_uploadPart (client env) b k u n body (s3 st)) st"

definition call_listParts ::
  "'w env \<Rightarrow> string \<Rightarrow> string \<Rightarrow> string option \<Rightarrow> int option \<Rightarrow> 'w state
    \<Rightarrow> (error + parts_page) \<times> 'w state" where
  "call_listParts env b k u m st =
     sent (ListParts b k u m) (s3_listParts (client env) b k u m (s3 st)) st"

definition call_completeMultipartUpload ::
  "'w env \<Rightarrow> string \<Rightarrow> string \<Rightarrow> string option \<Rightarrow> (string \<times> int) list \<Rightarrow> 'w state
    \<Rightarrow> (error + string) \<times> 'w state" where
  "call_completeMultipartUpload env b k u ps st =
     sent (CompleteMultipartUpload b k u ps)
       (s3_completeMultipartUpload (client env) b k u ps (s3 st)) st"

subsection \<open>Metadata: the sidecar object and the cache\<close>

text \<open>\<open>_bucketExists\<close> (lines 78-97). The handler of \<open>catch\<close> also receives the error
  thrown by the handler of \<open>then\<close>.\<close>

definition quoted :: "string \<Rightarrow> string" where
  "quoted s = [CHR 0x22] @ s @ [CHR 0x22]"

definition bucketExists :: "'w env \<Rightarrow> 'w state \<Rightarrow> (error + bool) \<times> 'w state" where
  "bucketExists env st =
     (case call_headBucket env (bucket_name env) st of
        (r, st1) \<Rightarrow>
          (case (case r of
                   Inl e \<Rightarrow> Inl e
                 | Inr data \<Rightarrow>
                     if \<not> data
                     then Inl (Error (''bucket '' @ quoted (bucket_name env) @ '' does not exist''))
                     else Inr data) of
             Inr data \<Rightarrow> (Inr data, st1)
           | Inl error_ \<Rightarrow>
               (Inl (if statusCode error_ = Some 404
                     then Error (''[S3Store] bucket '' @ quoted (bucket_name env) @ '' does not exist'')
                     else ErrorOf error_), st1)))"

text \<open>\<open>_saveMetadata\<close> (lines 162-187).\<close>

definition saveMetadata ::
  "'w env \<Rightarrow> upload \<Rightarrow> string option \<Rightarrow> 'w state
    \<Rightarrow> (error + upload \<times> string option) \<times> 'w state" where
  "saveMetadata env f uid st =
     (let metadata =
            [(''file'', Str (JSON_stringify env f)),
             (''upload_id'', jsval_of uid),
             (''tus_version'', Str (TUS_RESUMABLE env))]
      in case call_putObject env (bucket_name env) (id' f @ ''.info'') [] metadata st of
           (Inl e, st1) \<Rightarrow> (Inl e, st1)
         | (Inr u, st1) \<Rightarrow> (Inr (f, uid), st1))"

text \<open>\<open>_getMetadata\<close> (lines 197-223). \<open>JSON.parse(undefined)\<close> throws a
  \<open>SyntaxError\<close>; \<open>a || b\<close> is \<open>b\<close> when \<open>a\<close> is missing or the empty string.\<close>

definition or_else :: "string option \<Rightarrow> string option \<Rightarrow> string option" where
  "or_else a b = (case a of None \<Rightarrow> b | Some s \<Rightarrow> if s = [] then b else Some s)"

definition metadata_from_s3 ::
  "'w env \<Rightarrow> string \<Rightarrow> 'w state \<Rightarrow> (error + session) \<times> 'w state" where
  "metadata_from_s3 env file_id st =
     (case call_headObject env (bucket_name env) (file_id @ ''.info'') st of
        (Inl e, st1) \<Rightarrow> (Inl e, st1)
      | (Inr md, st1) \<Rightarrow>
          (case (case map_of md ''file'' of
                   None \<Rightarrow> Inl SyntaxError
                 | Some s \<Rightarrow> JSON_parse env s) of
             Inl e \<Rightarrow> (Inl e, st1)
           | Inr f \<Rightarrow>
               (let entry =
                      \<lparr>Metadata = md, file' = f,
                       upload_id = or_else (map_of md ''upload_id'') (map_of md ''upload-id'')\<rparr>
                in (Inr entry, st1\<lparr>cache := (cache st1)(file_id \<mapsto> entry)\<rparr>))))"

definition getMetadata :: "'w env \<Rightarrow> string \<Rightarrow> 'w state \<Rightarrow> (error + session) \<times> 'w state" where
  "getMetadata env file_id st =
     (case cache st file_id of
        None \<Rightarrow> metadata_from_s3 env file_id st
      | Some entry \<Rightarrow>
          if file' entry \<noteq> None then (Inr entry, st)
          else metadata_from_s3 env file_id st)"

text \<open>\<open>_clearCache\<close> (lines 433-436).\<close>

definition clearCache :: "string \<Rightarrow> 'w state \<Rightarrow> 'w state" where
  "clearCache file_id st = st\<lparr>cache := (cache st)(file_id := None)\<rparr>"

text \<open>\<open>_parseMetadataString\<close> (lines 231-248).\<close>

definition parseMetadataString :: "'w env \<Rightarrow> string option \<Rightarrow> (string \<rightharpoonup> parsed)" where
  "parseMetadataString env metadata_string =
     (case metadata_string of
        None \<Rightarrow> Map.empty
      | Some s \<Rightarrow>
          if s = [] then Map.empty
          else foldl
                 (\<lambda>metadata kv_pair.
                    (case js_split (CHR '' '') kv_pair of
                       [] \<Rightarrow> metadata
                     | key # rest \<Rightarrow>
                         (let base64_value = (case rest of [] \<Rightarrow> None | v # vs \<Rightarrow> Some v)
                          in metadata(key \<mapsto>
                               \<lparr>encoded = base64_value,
                                decoded = map_option (base64_ascii env) base64_value\<rparr>))))
                 Map.empty (js_split (CHR '','') s))"

text \<open>\<open>_initMultipartUpload\<close> (lines 107-150): the \<open>Metadata\<close> and the
  \<open>ContentType\<close> of \<open>upload_data\<close>, then the two requests.\<close>

definition upload_data_Metadata :: "'w env \<Rightarrow> upload \<Rightarrow> (string \<times> jsval) list" where
  "upload_data_Metadata env f =
     [(''tus_version'', Str (TUS_RESUMABLE env))]
     @ (if upload_length f \<noteq> Undefined then [(''upload_length'', upload_length f)] else [])
     @ (if upload_defer_length f \<noteq> Undefined
        then [(''upload_defer_length'', upload_defer_length f)] else [])
     @ (case upload_metadata f of
          None \<Rightarrow> []
        | Some s \<Rightarrow> [(''upload_metadata'', Str s)])
     @ (case parseMetadataString env (upload_metadata f) ''filename'' of
          None \<Rightarrow> []
        | Some p \<Rightarrow> [(''original_name'', jsval_of (encoded p))])"

definition upload_data_ContentType :: "'w env \<Rightarrow> upload \<Rightarrow> jsval option" where
  "upload_data_ContentType env f =
     (case parseMetadataString env (upload_metadata f) ''contentType'' of
        None \<Rightarrow> None
      | Some p \<Rightarrow> Some (jsval_of (decoded p)))"

definition initMultipartUpload ::
  "'w env \<Rightarrow> upload \<Rightarrow> 'w state \<Rightarrow> (error + upload \<times> string option) \<times> 'w state" where
  "initMultipartUpload env f st =
     (case call_createMultipartUpload env (bucket_name env) (id' f)
             (upload_data_Metadata env f) (upload_data_ContentType env f) st of
        (Inl e, st1) \<Rightarrow> (Inl e, st1)
      | (Inr UploadId, st1) \<Rightarrow> saveMetadata env f (Some UploadId) st1)"

text \<open>\<open>create\<close> (lines 438-448).\<close>

definition create :: "'w env \<Rightarrow> upload \<Rightarrow> 'w state \<Rightarrow> (error + upload) \<times> 'w state" where
  "create env f st =
     (case bucketExists env st of
        (Inl e, st1) \<Rightarrow> (Inl e, clearCache (id' f) st1)
      | (Inr data, st1) \<Rightarrow>
          (case initMultipartUpload env f st1 of
             (Inl e, st2) \<Rightarrow> (Inl e, clearCache (id' f) st2)
           | (Inr r, st2) \<Rightarrow> (Inr f, st2)))"

subsection \<open>Listing the parts\<close>

text \<open>
  \<open>_retrieveParts\<close> (lines 379-414). The cache entry is read before the promise chain
  starts. A marker is sent when it is truthy. The recursion follows the markers the
  object store returns, so nothing bounds it: \<open>None\<close> is a call that never returns.
  The comparator of \<open>sort\<close> orders by \<open>PartNumber\<close>, and the sort is stable.
\<close>

definition truthy :: "int option \<Rightarrow> bool" where
  "truthy m = (case m of None \<Rightarrow> False | Some n \<Rightarrow> n \<noteq> 0)"

definition filter_index :: "('a \<Rightarrow> nat \<Rightarrow> bool) \<Rightarrow> 'a list \<Rightarrow> 'a list" where
  "filter_index P xs = map snd (filter (\<lambda>(index, v). P v index) (enumerate 0 xs))"

definition sort_and_filter :: "part list \<Rightarrow> part list" where
  "sort_and_filter ps =
     filter_index (\<lambda>v index. PartNumber v = int index + 1) (sort_key PartNumber ps)"

partial_function (option) retrieveParts ::
  "'w env \<Rightarrow> string \<Rightarrow> int option \<Rightarrow> 'w state \<Rightarrow> ((error + part list) \<times> 'w state) option" where
  "retrieveParts env file_id part_number_marker st =
     (case cache st file_id of
        None \<Rightarrow> Some (Inl TypeError, st)
      | Some entry \<Rightarrow>
          (case call_listParts env (bucket_name env) file_id (upload_id entry)
                  (if truthy part_number_marker then part_number_marker else None) st of
             (Inl e, st1) \<Rightarrow> Some (Inl e, st1)
           | (Inr data, st1) \<Rightarrow>
               Option.bind
                 (if truthy (NextPartNumberMarker data)
                  then Option.bind
                         (retrieveParts env file_id (NextPartNumberMarker data) st1)
                         (\<lambda>(r, st2).
                            Some (case r of
                                    Inl e \<Rightarrow> Inl e
                                  | Inr val \<Rightarrow> Inr (Parts data @ val), st2))
                  else Some (Inr (Parts data), st1))
                 (\<lambda>(r, st2).
                    Some (case r of
                            Inl e \<Rightarrow> Inl e
                          | Inr ps \<Rightarrow>
                              if part_number_marker = None then Inr (sort_and_filter ps)
                              else Inr ps, st2))))"

text \<open>\<open>_countParts\<close> (lines 423-426).\<close>

definition countParts ::
  "'w env \<Rightarrow> string \<Rightarrow> 'w state \<Rightarrow> ((error + int) \<times> 'w state) option" where
  "countParts env file_id st =
     (case retrieveParts env file_id None st of
        None \<Rightarrow> None
      | Some (Inl e, st1) \<Rightarrow> Some (Inl e, st1)
      | Some (Inr ps, st1) \<Rightarrow> Some (Inr (int (length ps)), st1))"

text \<open>
  \<open>getOffset\<close> (lines 517-552). An exception inside the second \<open>try\<close> reaches its
  \<open>catch\<close>; one inside that \<open>catch\<close> leaves the function.
\<close>

definition getOffset ::
  "'w env \<Rightarrow> string \<Rightarrow> 'w state \<Rightarrow> ((error + offset) \<times> 'w state) option" where
  "getOffset env file_id st =
     (case getMetadata env file_id st of
        (Inl e, st1) \<Rightarrow> Some (Inl FILE_NOT_FOUND, st1)
      | (Inr metadata, st1) \<Rightarrow>
          (case retrieveParts env file_id None st1 of
             None \<Rightarrow> None
           | Some (r, st2) \<Rightarrow>
               (case (case r of
                        Inl e \<Rightarrow> Inl e
                      | Inr ps \<Rightarrow>
                          (case cache st2 file_id of
                             None \<Rightarrow> Inl TypeError
                           | Some entry \<Rightarrow>
                               (case file' metadata of
                                  None \<Rightarrow> Inl TypeError
                                | Some f \<Rightarrow>
                                    Inr \<lparr>file_props = file' entry,
                                         size' = (if length ps > 0
                                                  then Num (foldl (\<lambda>a b. a + Size b) 0 ps)
                                                  else Num 0),
                                         upload_length' = upload_length f,
                                         upload_defer_length' = upload_defer_length f,
                                         parts = Some ps\<rparr>))) of
                  Inr off \<Rightarrow> Some (Inr off, st2)
                | Inl e \<Rightarrow>
                    if code e \<noteq> Some ''NoSuchUpload'' then Some (Inl e, st2)
                    else (case cache st2 file_id of
                            None \<Rightarrow> Some (Inl TypeError, st2)
                          | Some entry \<Rightarrow>
                              (case file' metadata of
                                 None \<Rightarrow> Some (Inl TypeError, st2)
                               | Some f \<Rightarrow>
                                   Some (Inr \<lparr>file_props = file' entry,
                                              size' = upload_length f,
                                              upload_length' = upload_length f,
                                              upload_defer_length' = upload_defer_length f,
                                              parts = None\<rparr>, st2))))))"

text \<open>
  \<open>declareUploadLength\<close> (lines 554-563). \<open>file\<close> is the object held by the cache entry,
  so the two assignments change the entry. The promise of \<open>_saveMetadata\<close> is dropped.
\<close>

definition declareUploadLength ::
  "'w env \<Rightarrow> string \<Rightarrow> jsval \<Rightarrow> 'w state \<Rightarrow> (error + unit) \<times> 'w state" where
  "declareUploadLength env file_id len st =
     (case getMetadata env file_id st of
        (Inl e, st1) \<Rightarrow> (Inl e, st1)
      | (Inr metadata, st1) \<Rightarrow>
          (case file' metadata of
             None \<Rightarrow> (Inl FILE_NOT_FOUND, st1)
           | Some f \<Rightarrow>
               (let f1 = f\<lparr>upload_length := len, upload_defer_length := Undefined\<rparr>;
                    st2 = st1\<lparr>cache := (cache st1)(file_id \<mapsto> metadata\<lparr>file' := Some f1\<rparr>)\<rparr>
                in (Inr (), snd (saveMetadata env f1 (upload_id metadata) st2)))))"

subsection \<open>The part coordinator\<close>

text \<open>
  What the splitter emits for one request body: its \<open>chunkStarted\<close> and
  \<open>chunkFinished\<close> events (the latter with the path and the size of the chunk file),
  and the error of the pipeline, if any.
\<close>

datatype splitter_event = ChunkStarted string | ChunkFinished string int

record readable =
  events :: "splitter_event list"
  pipelineErr :: "error option"

text \<open>The variables of \<open>_processUpload\<close> (lines 284-339) that its handlers share. A
  promise of the list is held by its outcome, whenever it settles; a skipped chunk
  resolves with nothing.\<close>

record coordinator =
  promises :: "(error + string option) list"
  pendingChunkFilepath :: "string option"
  current_size :: jsval
  currentPartNumber :: int

text \<open>\<open>_uploadPart\<close> (lines 258-272).\<close>

definition uploadPart ::
  "'w env \<Rightarrow> session \<Rightarrow> string \<Rightarrow> int \<Rightarrow> 'w state \<Rightarrow> (error + string) \<times> 'w state" where
  "uploadPart env metadata read_stream current_part_number st =
     (case file' metadata of
        None \<Rightarrow> (Inl TypeError, st)
      | Some f \<Rightarrow>
          call_uploadPart env (bucket_name env) (id' f) (upload_id metadata)
            current_part_number read_stream st)"

text \<open>The promise \<open>p\<close> of one finished chunk (lines 317-335): the decision, the upload,
  and the removal of the chunk file when the promise settles.\<close>

definition is_last_chunk :: "upload \<Rightarrow> jsval \<Rightarrow> bool" where
  "is_last_chunk f cur = strict_equals (Number_parseInt (upload_length f)) cur"

definition chunk_promise ::
  "'w env \<Rightarrow> session \<Rightarrow> string \<Rightarrow> int \<Rightarrow> int \<Rightarrow> jsval \<Rightarrow> 'w state
    \<Rightarrow> (error + string option) \<times> 'w state" where
  "chunk_promise env metadata path sz partNumber cur st =
     (case (case file' metadata of
              None \<Rightarrow> (Inl TypeError, st)
            | Some f \<Rightarrow>
                if \<not> is_last_chunk f cur \<and> sz < 5 * 1024 * 1024 then (Inr None, st)
                else (case uploadPart env metadata path partNumber st of
                        (Inl e, st1) \<Rightarrow> (Inl e, st1)
                      | (Inr etag, st1) \<Rightarrow> (Inr (Some etag), st1))) of
        (r, st1) \<Rightarrow> (r, fs_rm path st1))"

text \<open>The two handlers (lines 310-337). The callback of the promise of a chunk runs
  before the next event arrives: the decision is taken and the request of the upload is
  sent. The outcome of the promise is fixed by the answer of the object store; the
  time at which the promise settles is given by \<open>settle_times\<close> below.\<close>

fun on_event ::
  "'w env \<Rightarrow> session \<Rightarrow> coordinator \<times> 'w state \<Rightarrow> splitter_event \<Rightarrow> coordinator \<times> 'w state" where
  "on_event env metadata (co, st) (ChunkStarted filepath) =
     (co\<lparr>pendingChunkFilepath := Some filepath\<rparr>, st)"
| "on_event env metadata (co, st) (ChunkFinished path sz) =
     (let co1 = co\<lparr>pendingChunkFilepath := None,
                    current_size := js_add (current_size co) sz\<rparr>;
          partNumber = currentPartNumber co1;
          co2 = co1\<lparr>currentPartNumber := partNumber + 1\<rparr>
      in case chunk_promise env metadata path sz partNumber (current_size co2) st of
           (p, st1) \<Rightarrow> (co2\<lparr>promises := promises co2 @ [p]\<rparr>, st1))"

definition run_events ::
  "'w env \<Rightarrow> session \<Rightarrow> splitter_event list \<Rightarrow> coordinator \<times> 'w state \<Rightarrow> coordinator \<times> 'w state" where
  "run_events env metadata evs cs = foldl (on_event env metadata) cs evs"

text \<open>The sizes of the chunks an event list finishes, in order.\<close>

fun finished_sizes :: "splitter_event list \<Rightarrow> int list" where
  "finished_sizes [] = []"
| "finished_sizes (ChunkStarted p # evs) = finished_sizes evs"
| "finished_sizes (ChunkFinished p sz # evs) = sz # finished_sizes evs"

text \<open>The callback of the pipeline (lines 298-309), after the last event.\<close>

definition pipeline_done ::
  "error option \<Rightarrow> coordinator \<times> 'w state \<Rightarrow> (error + string option) list \<times> 'w state" where
  "pipeline_done err cs =
     (case cs of
        (co, st) \<Rightarrow>
          (promises co @ [case err of None \<Rightarrow> Inr None | Some e \<Rightarrow> Inl e],
           (case err of
              None \<Rightarrow> st
            | Some e \<Rightarrow>
                (case pendingChunkFilepath co of None \<Rightarrow> st | Some p \<Rightarrow> fs_rm p st))))"

definition coordinator0 :: "int \<Rightarrow> jsval \<Rightarrow> coordinator" where
  "coordinator0 n sz =
     \<lparr>promises = [], pendingChunkFilepath = None, current_size = sz, currentPartNumber = n\<rparr>"

definition processUpload ::
  "'w env \<Rightarrow> session \<Rightarrow> readable \<Rightarrow> int \<Rightarrow> jsval \<Rightarrow> 'w state
    \<Rightarrow> (error + string option) list \<times> 'w state" where
  "processUpload env metadata readStream currentPartNumber0 current_size0 st =
     pipeline_done (pipelineErr readStream)
       (run_events env metadata (events readStream)
          (coordinator0 currentPartNumber0 current_size0, st))"

text \<open>
  When the promises of the coordinator settle. The promise of a chunk that is skipped
  settles before the next event, and so does one whose callback throws (the metadata
  has no file record). The promise of an upload settles when the object store has
  answered, at the time \<open>upload_settles env i\<close> for the \<open>i\<close>-th finished chunk. The last
  promise of the list is the one that the callback of the pipeline pushes: it is
  settled.
\<close>

fun settle_times :: "'w env \<Rightarrow> session \<Rightarrow> nat \<Rightarrow> (error + string option) list \<Rightarrow> nat list" where
  "settle_times env metadata i [] = []"
| "settle_times env metadata i [p] = [0]"
| "settle_times env metadata i (p # q # ps) =
     (if file' metadata = None \<or> p = Inr None then 0 else upload_settles env i)
       # settle_times env metadata (Suc i) (q # ps)"

definition timed ::
  "'w env \<Rightarrow> session \<Rightarrow> (error + string option) list \<Rightarrow> (nat \<times> (error + string option)) list" where
  "timed env metadata ps = zip (settle_times env metadata 0 ps) ps"

text \<open>
  \<open>Promise.all\<close> (line 466) is called when the pipeline has ended, over the promises of
  the coordinator, each with the time at which it settles: 0 when it has settled by
  then, a larger number for a later time. \<open>Promise.all\<close> rejects with the rejection it
  is told of first: among the promises that are rejected when it is called, that of the
  first one in the list; when there is none, the earliest in time (two promises that
  settle at the same time are taken in the order of the list). It resolves, with all
  the values, when no promise of the list is rejected.
\<close>

fun rejections :: "(nat \<times> (error + 'a)) list \<Rightarrow> (nat \<times> error) list" where
  "rejections [] = []"
| "rejections ((t, Inl e) # ps) = (t, e) # rejections ps"
| "rejections ((t, Inr v) # ps) = rejections ps"

fun fulfilled :: "(nat \<times> (error + 'a)) list \<Rightarrow> 'a list" where
  "fulfilled [] = []"
| "fulfilled ((t, Inl e) # ps) = fulfilled ps"
| "fulfilled ((t, Inr v) # ps) = v # fulfilled ps"

fun first_rejection :: "(nat \<times> error) list \<Rightarrow> (nat \<times> error) option" where
  "first_rejection [] = None"
| "first_rejection ((t, e) # rs) =
     (case first_rejection rs of
        None \<Rightarrow> Some (t, e)
      | Some (t1, e1) \<Rightarrow> if t \<le> t1 then Some (t, e) else Some (t1, e1))"

definition Promise_all :: "(nat \<times> (error + 'a)) list \<Rightarrow> error + 'a list" where
  "Promise_all ps =
     (case first_rejection (rejections ps) of
        None \<Rightarrow> Inr (fulfilled ps)
      | Some (t, e) \<Rightarrow> Inl e)"

text \<open>\<open>_finishMultipartUpload\<close> (lines 349-369); \<open>parts.map\<close> throws when \<open>parts\<close> is
  undefined.\<close>

definition finishMultipartUpload ::
  "'w env \<Rightarrow> session \<Rightarrow> part list option \<Rightarrow> 'w state \<Rightarrow> (error + string) \<times> 'w state" where
  "finishMultipartUpload env metadata ps st =
     (case file' metadata of
        None \<Rightarrow> (Inl TypeError, st)
      | Some f \<Rightarrow>
          (case ps of
             None \<Rightarrow> (Inl TypeError, st)
           | Some ps1 \<Rightarrow>
               call_completeMultipartUpload env (bucket_name env) (id' f) (upload_id metadata)
                 (map (\<lambda>p. (ETag p, PartNumber p)) ps1) st))"

subsection \<open>write\<close>

text \<open>The callback that receives the re-fetched offset (lines 476-492).\<close>

definition write_finish ::
  "'w env \<Rightarrow> session \<Rightarrow> string \<Rightarrow> offset \<Rightarrow> 'w state \<Rightarrow> (error + jsval) \<times> 'w state" where
  "write_finish env metadata file_id current_offset st =
     (case file' metadata of
        None \<Rightarrow> (Inl TypeError, st)
      | Some f \<Rightarrow>
          if strict_equals (Number_parseInt (upload_length f)) (size' current_offset)
          then (case finishMultipartUpload env metadata (parts current_offset) st of
                  (Inl e, st1) \<Rightarrow> (Inl e, st1)
                | (Inr location, st1) \<Rightarrow> (Inr (size' current_offset), clearCache file_id st1))
          else (Inr (size' current_offset), st))"

text \<open>The handler of \<open>catch\<close> (lines 493-513).\<close>

definition graceful :: "error \<Rightarrow> bool" where
  "graceful e = (code e \<in> set [Some ''RequestTimeout'', Some ''NoSuchUpload''])"

definition write_catch ::
  "'w env \<Rightarrow> string \<Rightarrow> error \<Rightarrow> 'w state \<Rightarrow> ((error + jsval) \<times> 'w state) option" where
  "write_catch env file_id e st =
     (if graceful e
      then (case getOffset env file_id st of
              None \<Rightarrow> None
            | Some (Inl e1, st1) \<Rightarrow> Some (Inl e1, st1)
            | Some (Inr current_offset, st1) \<Rightarrow> Some (Inr (size' current_offset), st1))
      else Some (Inl e, clearCache file_id st))"

text \<open>The chain that \<open>catch\<close> guards (lines 466-492): the coordinator, then
  \<open>Promise.all\<close> over its promises, the offset fetched again, the completion. When
  \<open>Promise.all\<close> resolves, every upload has settled. When it rejects, the handler of
  \<open>catch\<close> runs at once, whether or not the other uploads have settled.\<close>

definition write_settle ::
  "'w env \<Rightarrow> string \<Rightarrow> session \<Rightarrow> (error + string option) list \<times> 'w state
    \<Rightarrow> ((error + jsval) \<times> 'w state) option" where
  "write_settle env file_id metadata pst =
     (case pst of
        (ps, st1) \<Rightarrow>
          (case Promise_all (timed env metadata ps) of
             Inl e \<Rightarrow> Some (Inl e, st1)
           | Inr vs \<Rightarrow>
               (case getOffset env file_id st1 of
                  None \<Rightarrow> None
                | Some (Inl e, st2) \<Rightarrow> Some (Inl e, st2)
                | Some (Inr current_offset, st2) \<Rightarrow>
                    Some (write_finish env metadata file_id current_offset st2))))"

definition write_chain ::
  "'w env \<Rightarrow> readable \<Rightarrow> string \<Rightarrow> session \<Rightarrow> int \<Rightarrow> offset \<Rightarrow> 'w state
    \<Rightarrow> ((error + jsval) \<times> 'w state) option" where
  "write_chain env rd file_id metadata part_number initial_offset st =
     (let next_part_number = part_number + 1
      in write_settle env file_id metadata
           (processUpload env metadata rd next_part_number (size' initial_offset) st))"

text \<open>\<open>write\<close> (lines 458-515), here \<open>write'\<close>. The first three operations are outside the chain that
  \<open>catch\<close> guards; \<open>_countParts\<close> and \<open>getOffset\<close> are both started, and the first
  rejection of the two is the one that counts.\<close>

definition write' ::
  "'w env \<Rightarrow> readable \<Rightarrow> string \<Rightarrow> 'w state \<Rightarrow> ((error + jsval) \<times> 'w state) option" where
  "write' env rd file_id st =
     (case getMetadata env file_id st of
        (Inl e, st1) \<Rightarrow> Some (Inl e, st1)
      | (Inr metadata, st1) \<Rightarrow>
          (case countParts env file_id st1 of
             None \<Rightarrow> None
           | Some (r1, st2) \<Rightarrow>
               (case getOffset env file_id st2 of
                  None \<Rightarrow> None
                | Some (r2, st3) \<Rightarrow>
                    (case r1 of
                       Inl e \<Rightarrow> Some (Inl e, st3)
                     | Inr part_number \<Rightarrow>
                         (case r2 of
                            Inl e \<Rightarrow> Some (Inl e, st3)
                          | Inr initial_offset \<Rightarrow>
                              (case write_chain env rd file_id metadata part_number
                                      initial_offset st3 of
                                 None \<Rightarrow> None
                               | Some (Inl e, st4) \<Rightarrow> write_catch env file_id e st4
                               | Some (Inr v, st4) \<Rightarrow> Some (Inr v, st4)))))))"

subsection \<open>The parts the object store lists\<close>

text \<open>
  The list of parts returned by \<open>listParts\<close>, concatenated across pages, as the
  specification describes the enumeration: one request per page, the next one with the
  marker the page returned, until a page returns none.
\<close>

inductive concatenated_pages ::
  "'w env \<Rightarrow> string \<Rightarrow> string option \<Rightarrow> int option \<Rightarrow> 'w state \<Rightarrow> part list \<Rightarrow> 'w state \<Rightarrow> bool"
  for env :: "'w env" and file_id :: string and uid :: "string option" where
  last_page:
    "call_listParts env (bucket_name env) file_id uid (if truthy m then m else None) st
       = (Inr data, st1)
     \<Longrightarrow> \<not> truthy (NextPartNumberMarker data)
     \<Longrightarrow> concatenated_pages env file_id uid m st (Parts data) st1"
| next_page:
    "call_listParts env (bucket_name env) file_id uid (if truthy m then m else None) st
       = (Inr data, st1)
     \<Longrightarrow> truthy (NextPartNumberMarker data)
     \<Longrightarrow> concatenated_pages env file_id uid (NextPartNumberMarker data) st1 val st2
     \<Longrightarrow> concatenated_pages env file_id uid m st (Parts data @ val) st2"

subsection \<open>A scripted object store\<close>

text \<open>
  An object store whose answers are fixed in advance, for concrete runs. Its state counts
  the \<open>listParts\<close> requests it has answered; the answer to such a request depends on that
  count and on the marker sent. \<open>on_settle\<close> is the time at which its uploads settle.
\<close>

record script =
  on_headBucket :: "error + bool"
  on_createMultipartUpload :: "error + string"
  on_putObject :: "error + unit"
  on_headObject :: "error + (string \<times> string) list"
  on_uploadPart :: "int \<Rightarrow> error + string"
  on_listParts :: "nat \<Rightarrow> int option \<Rightarrow> error + parts_page"
  on_completeMultipartUpload :: "error + string"
  on_parse :: "error + upload option"
  on_settle :: "nat \<Rightarrow> nat"

definition scripted_client :: "script \<Rightarrow> nat client" where
  "scripted_client sc =
     \<lparr>s3_headBucket = (\<lambda>b w. (on_headBucket sc, w)),
      s3_createMultipartUpload = (\<lambda>b k m ct w. (on_createMultipartUpload sc, w)),
      s3_putObject = (\<lambda>b k body m w. (on_putObject sc, w)),
      s3_headObject = (\<lambda>b k w. (on_headObject sc, w)),
      s3_uploadPart = (\<lambda>b k u n body w. (on_uploadPart sc n, w)),
      s3_listParts = (\<lambda>b k u m w. (on_listParts sc w m, Suc w)),
      s3_completeMultipartUpload = (\<lambda>b k u ps w. (on_completeMultipartUpload sc, w))\<rparr>"

definition scripted_env :: "script \<Rightarrow> nat env" where
  "scripted_env sc =
     \<lparr>bucket_name = ''tus'',
      client = scripted_client sc,
      TUS_RESUMABLE = ''1.0.0'',
      JSON_stringify = (\<lambda>u. id' u),
      JSON_parse = (\<lambda>s. on_parse sc),
      base64_ascii = (\<lambda>s. s),
      upload_settles = on_settle sc\<rparr>"

definition start :: "nat state" where
  "start = \<lparr>cache = Map.empty, s3 = 0, trace = []\<rparr>"

definition an_upload :: "jsval \<Rightarrow> upload" where
  "an_upload len =
     \<lparr>id' = ''a'', upload_length = len, upload_defer_length = Undefined,
      upload_metadata = None\<rparr>"

definition a_part :: "int \<Rightarrow> int \<Rightarrow> part" where
  "a_part n sz = \<lparr>PartNumber = n, Size = sz, ETag = ''etag''\<rparr>"

text \<open>Two pages with a gap: part 4 is missing.\<close>

definition gap_script :: script where
  "gap_script =
     \<lparr>on_headBucket = Inr True,
      on_createMultipartUpload = Inr ''mpu'',
      on_putObject = Inr (),
      on_headObject = Inr [],
      on_uploadPart = (\<lambda>n. Inr ''etag''),
      on_listParts = (\<lambda>k m. if m = None
         then Inr \<lparr>Parts = [a_part 3 30, a_part 1 10], NextPartNumberMarker = Some 3\<rparr>
         else Inr \<lparr>Parts = [a_part 5 50, a_part 2 20], NextPartNumberMarker = None\<rparr>),
      on_completeMultipartUpload = Inr ''loc'',
      on_parse = Inr None,
      on_settle = (\<lambda>i. 0)\<rparr>"

definition a_session :: "jsval \<Rightarrow> session" where
  "a_session len = \<lparr>Metadata = [], file' = Some (an_upload len), upload_id = Some ''mpu''\<rparr>"

definition cached_start :: "jsval \<Rightarrow> nat state" where
  "cached_start len = start\<lparr>cache := [''a'' \<mapsto> a_session len]\<rparr>"

text \<open>A sidecar object as DigitalOcean Spaces returns it: the upload id is under the key
  \<open>upload-id\<close> only.\<close>

definition spaces_script :: script where
  "spaces_script =
     \<lparr>on_headBucket = Inr True,
      on_createMultipartUpload = Inr ''mpu'',
      on_putObject = Inr (),
      on_headObject = Inr [(''file'', ''a''), (''upload-id'', ''mpu-7''), (''tus_version'', ''1.0.0'')],
      on_uploadPart = (\<lambda>n. Inr ''etag''),
      on_listParts = (\<lambda>k m. Inr \<lparr>Parts = [], NextPartNumberMarker = None\<rparr>),
      on_completeMultipartUpload = Inr ''loc'',
      on_parse = Inr (Some (an_upload (Str ''100''))),
      on_settle = (\<lambda>i. 0)\<rparr>"

definition spaces_entry :: session where
  "spaces_entry =
     \<lparr>Metadata = [(''file'', ''a''), (''upload-id'', ''mpu-7''), (''tus_version'', ''1.0.0'')],
      file' = Some (an_upload (Str ''100'')),
      upload_id = Some ''mpu-7''\<rparr>"

text \<open>No sidecar object; the parts are listed once, then the multipart upload is gone,
  then the object store fails.\<close>

definition offsets_script :: script where
  "offsets_script =
     \<lparr>on_headBucket = Inr True,
      on_createMultipartUpload = Inr ''mpu'',
      on_putObject = Inr (),
      on_headObject = Inl (ServiceError (Some ''NotFound'') (Some 404)),
      on_uploadPart = (\<lambda>n. Inr ''etag''),
      on_listParts = (\<lambda>k m.
         if k = 0 then Inr \<lparr>Parts = [a_part 1 10, a_part 2 20], NextPartNumberMarker = None\<rparr>
         else if k = 1 then Inl (ServiceError (Some ''NoSuchUpload'') (Some 404))
         else Inl (ServiceError (Some ''InternalError'') (Some 500))),
      on_completeMultipartUpload = Inr ''loc'',
      on_parse = Inr None,
      on_settle = (\<lambda>i. 0)\<rparr>"

subsection \<open>A simulated object store\<close>

text \<open>
  An object store that keeps the parts it is sent: its state is the list of the parts of
  the one multipart upload, a part has the size of the chunk file it was read from (the
  table \<open>sizes\<close>), and \<open>listParts\<close> returns all parts in one page. Its uploads have
  settled when the pipeline ends.
\<close>

definition simulated_client :: "(string \<times> int) list \<Rightarrow> (part list) client" where
  "simulated_client sizes =
     \<lparr>s3_headBucket = (\<lambda>b w. (Inr True, w)),
      s3_createMultipartUpload = (\<lambda>b k m ct w. (Inr ''mpu'', w)),
      s3_putObject = (\<lambda>b k body m w. (Inr (), w)),
      s3_headObject = (\<lambda>b k w. (Inl (ServiceError (Some ''NotFound'') (Some 404)), w)),
      s3_uploadPart = (\<lambda>b k u n body w.
         (Inr (''etag-'' @ body),
          w @ [\<lparr>PartNumber = n,
                Size = (case map_of sizes body of None \<Rightarrow> 0 | Some sz \<Rightarrow> sz),
                ETag = ''etag-'' @ body\<rparr>])),
      s3_listParts = (\<lambda>b k u m w. (Inr \<lparr>Parts = w, NextPartNumberMarker = None\<rparr>, w)),
      s3_completeMultipartUpload = (\<lambda>b k u ps w. (Inr ''location'', w))\<rparr>"

definition simulated_env :: "(string \<times> int) list \<Rightarrow> (part list) env" where
  "simulated_env sizes =
     \<lparr>bucket_name = ''tus'',
      client = simulated_client sizes,
      TUS_RESUMABLE = ''1.0.0'',
      JSON_stringify = (\<lambda>u. id' u),
      JSON_parse = (\<lambda>s. Inl SyntaxError),
      base64_ascii = (\<lambda>s. s),
      upload_settles = (\<lambda>i. 0)\<rparr>"

definition a_state :: "jsval \<Rightarrow> 'w \<Rightarrow> call list \<Rightarrow> 'w state" where
  "a_state len w tr = \<lparr>cache = [''a'' \<mapsto> a_session len], s3 = w, trace = tr\<rparr>"

definition three_chunks :: readable where
  "three_chunks =
     \<lparr>events = [ChunkStarted ''c1'', ChunkFinished ''c1'' 8388608,
                ChunkStarted ''c2'', ChunkFinished ''c2'' 8388608,
                ChunkStarted ''c3'', ChunkFinished ''c3'' 4194304],
      pipelineErr = None\<rparr>"

definition three_sizes :: "(string \<times> int) list" where
  "three_sizes = [(''c1'', 8388608), (''c2'', 8388608), (''c3'', 4194304)]"

definition three_prefix :: "splitter_event list" where
  "three_prefix =
     [ChunkStarted ''c1'', ChunkFinished ''c1'' 8388608,
      ChunkStarted ''c2'', ChunkFinished ''c2'' 8388608,
      ChunkStarted ''c3'']"

text \<open>A scripted object store that lists the parts \<open>ps\<close> for its first \<open>n\<close>
  \<open>listParts\<close> requests and fails with \<open>late\<close> from then on, and answers
  \<open>completeMultipartUpload\<close> with \<open>fin\<close>; a request body that is empty or breaks at
  once.\<close>

definition fading_script :: "nat \<Rightarrow> part list \<Rightarrow> error \<Rightarrow> error + string \<Rightarrow> script" where
  "fading_script n ps late fin =
     \<lparr>on_headBucket = Inr True,
      on_createMultipartUpload = Inr ''mpu'',
      on_putObject = Inr (),
      on_headObject = Inl (ServiceError (Some ''NotFound'') (Some 404)),
      on_uploadPart = (\<lambda>n. Inr ''etag''),
      on_listParts = (\<lambda>k m.
         if k < n then Inr \<lparr>Parts = ps, NextPartNumberMarker = None\<rparr> else Inl late),
      on_completeMultipartUpload = fin,
      on_parse = Inr None,
      on_settle = (\<lambda>i. 0)\<rparr>"

definition no_chunks :: "error option \<Rightarrow> readable" where
  "no_chunks err = \<lparr>events = [], pipelineErr = err\<rparr>"

text \<open>A scripted object store that has no parts and whose uploads fail with the error
  \<open>e\<close>, at the time \<open>t\<close>; a request body that breaks with the error \<open>err\<close> after one
  chunk of 8 MiB, while the next chunk is being written.\<close>

definition failing_script :: "error \<Rightarrow> nat \<Rightarrow> script" where
  "failing_script e t =
     \<lparr>on_headBucket = Inr True,
      on_createMultipartUpload = Inr ''mpu'',
      on_putObject = Inr (),
      on_headObject = Inl (ServiceError (Some ''NotFound'') (Some 404)),
      on_uploadPart = (\<lambda>n. Inl e),
      on_listParts = (\<lambda>k m. Inr \<lparr>Parts = [], NextPartNumberMarker = None\<rparr>),
      on_completeMultipartUpload = Inr ''location'',
      on_parse = Inr None,
      on_settle = (\<lambda>i. t)\<rparr>"

definition broken_body :: "error \<Rightarrow> readable" where
  "broken_body err =
     \<lparr>events = [ChunkStarted ''c1'', ChunkFinished ''c1'' 8388608, ChunkStarted ''c2''],
      pipelineErr = Some err\<rparr>"

section \<open>Properties\<close>

subsection \<open>What the metadata cache holds after a call\<close>

lemma call_listParts_cache:
  "call_listParts env b k u m st = (r, st1) \<Longrightarrow> cache st1 = cache st"
  by (auto simp: call_listParts_def sent_def)

lemma truthy_not_None: "truthy m \<Longrightarrow> m \<noteq> None"
  by (auto simp: truthy_def split: option.splits)

lemma getMetadata_hit:
  "cache st file_id = Some entry \<Longrightarrow> file' entry \<noteq> None
   \<Longrightarrow> getMetadata env file_id st = (Inr entry, st)"
  by (simp add: getMetadata_def)

lemma getMetadata_miss:
  "\<forall>entry. cache st file_id = Some entry \<longrightarrow> file' entry = None
   \<Longrightarrow> getMetadata env file_id st = metadata_from_s3 env file_id st"
  by (simp add: getMetadata_def split: option.splits)

lemma metadata_from_s3_cache:
  "metadata_from_s3 env file_id st = (Inr entry, st1) \<Longrightarrow> cache st1 file_id = Some entry"
  by (auto simp: metadata_from_s3_def call_headObject_def sent_def Let_def
      split: prod.splits sum.splits option.splits)

lemma getMetadata_cache:
  "getMetadata env file_id st = (Inr entry, st1) \<Longrightarrow> cache st1 file_id = Some entry"
  by (auto simp: getMetadata_def metadata_from_s3_cache split: option.splits if_splits)

lemma metadata_from_s3_eq:
  assumes "s3_headObject (client env) (bucket_name env) (file_id @ ''.info'') (s3 st) = (Inr md, w)"
    and "map_of md ''file'' = Some js" and "JSON_parse env js = Inr f"
  shows "metadata_from_s3 env file_id st =
      (Inr \<lparr>Metadata = md, file' = f,
            upload_id = or_else (map_of md ''upload_id'') (map_of md ''upload-id'')\<rparr>,
       st\<lparr>s3 := w,
          trace := trace st @ [HeadObject (bucket_name env) (file_id @ ''.info'')],
          cache := (cache st)(file_id \<mapsto>
            \<lparr>Metadata = md, file' = f,
             upload_id = or_else (map_of md ''upload_id'') (map_of md ''upload-id'')\<rparr>)\<rparr>)"
  using assms by (simp add: metadata_from_s3_def call_headObject_def sent_def Let_def)

lemma retrieveParts_cache_snd:
  assumes "retrieveParts env file_id m st = Some y"
  shows "cache (snd y) = cache st"
proof (rule retrieveParts.raw_induct
    [where P = "\<lambda>env file_id m st y. cache (snd y) = cache st", OF _ assms])
  fix rp :: "'a env \<Rightarrow> string \<Rightarrow> int option \<Rightarrow> 'a state \<Rightarrow> ((error + part list) \<times> 'a state) option"
    and env file_id m st y
  assume ih: "\<And>env file_id m st y. rp env file_id m st = Some y \<Longrightarrow> cache (snd y) = cache st"
  assume b: "(case cache st file_id of None \<Rightarrow> Some (Inl TypeError, st)
      | Some entry \<Rightarrow>
          case call_listParts env (bucket_name env) file_id
                (upload_id entry)
                (if truthy m then m else None) st of
          (Inl e, st1) \<Rightarrow> Some (Inl e, st1)
          | (Inr data, st1) \<Rightarrow>
              Option.bind
               (if truthy (NextPartNumberMarker data)
                then Option.bind
                      (rp env file_id (NextPartNumberMarker data) st1)
                      (\<lambda>(r, st2).
                          Some
                           (case r of Inl e \<Rightarrow> Inl e
                            | Inr val \<Rightarrow> Inr (Parts data @ val),
                            st2))
                else Some (Inr (Parts data), st1))
               (\<lambda>(r, st2).
                   Some
                    (case r of Inl e \<Rightarrow> Inl e
                     | Inr ps \<Rightarrow>
                         if m = None
                         then Inr (sort_and_filter ps) else Inr ps,
                     st2))) = Some y"
  show "cache (snd y) = cache st"
  proof (cases "cache st file_id")
    case None
    with b show ?thesis by auto
  next
    case (Some entry)
    obtain r st1 where l: "call_listParts env (bucket_name env) file_id (upload_id entry)
                (if truthy m then m else None) st = (r, st1)"
      by (cases "call_listParts env (bucket_name env) file_id (upload_id entry)
                (if truthy m then m else None) st") auto
    then have c1: "cache st1 = cache st" by (rule call_listParts_cache)
    show ?thesis
    proof (cases r)
      case (Inl e)
      with b Some l c1 show ?thesis by auto
    next
      case (Inr data)
      show ?thesis
      proof (cases "truthy (NextPartNumberMarker data)")
        case True
        with b Some l Inr obtain y1 where
          y1: "rp env file_id (NextPartNumberMarker data) st1 = Some y1" and "snd y = snd y1"
          by (auto simp: Option.bind_eq_Some_conv split: prod.splits)
        with ih[OF y1] c1 show ?thesis by simp
      next
        case False
        with b Some l Inr c1 show ?thesis by auto
      qed
    qed
  qed
qed

lemma retrieveParts_cache:
  "retrieveParts env file_id m st = Some (r, st1) \<Longrightarrow> cache st1 = cache st"
  using retrieveParts_cache_snd by fastforce

subsection \<open>Requests to the scripted object store\<close>

lemma scripted_listParts:
  "call_listParts (scripted_env sc) b k u m st =
     (on_listParts sc (s3 st) m, st\<lparr>s3 := Suc (s3 st), trace := trace st @ [ListParts b k u m]\<rparr>)"
  by (simp add: call_listParts_def sent_def scripted_env_def scripted_client_def)

lemma scripted_headObject:
  "call_headObject (scripted_env sc) b k st =
     (on_headObject sc, st\<lparr>s3 := s3 st, trace := trace st @ [HeadObject b k]\<rparr>)"
  by (simp add: call_headObject_def sent_def scripted_env_def scripted_client_def)

lemma scripted_bucket_name: "bucket_name (scripted_env sc) = ''tus''"
  by (simp add: scripted_env_def)

subsection \<open>One page of parts\<close>

lemma retrieveParts_no_entry:
  "cache st file_id = None \<Longrightarrow> retrieveParts env file_id m st = Some (Inl TypeError, st)"
  by (subst retrieveParts.simps) simp

lemma retrieveParts_error:
  "cache st file_id = Some entry
   \<Longrightarrow> call_listParts env (bucket_name env) file_id (upload_id entry)
         (if truthy m then m else None) st = (Inl e, st1)
   \<Longrightarrow> retrieveParts env file_id m st = Some (Inl e, st1)"
  by (subst retrieveParts.simps) simp

lemma foldl_Size: "foldl (\<lambda>a b. a + Size b) k ps = k + sum_list (map Size ps)"
  by (induction ps arbitrary: k) auto

lemma retrieveParts_last_page:
  "cache st file_id = Some entry
   \<Longrightarrow> call_listParts env (bucket_name env) file_id (upload_id entry) None st = (Inr data, st1)
   \<Longrightarrow> \<not> truthy (NextPartNumberMarker data)
   \<Longrightarrow> retrieveParts env file_id None st = Some (Inr (sort_and_filter (Parts data)), st1)"
  by (subst retrieveParts.simps) (simp add: truthy_def)

lemma sort_and_filter_12: "sort_and_filter [a_part 1 10, a_part 2 20] = [a_part 1 10, a_part 2 20]"
  by (simp add: sort_and_filter_def filter_index_def a_part_def enumerate_eq_zip upt_rec)

lemma cached_start_hit:
  "cache st ''a'' = Some (a_session len) \<Longrightarrow> getMetadata env ''a'' st = (Inr (a_session len), st)"
  by (rule getMetadata_hit) (simp_all add: a_session_def)

subsection \<open>Creating an upload on the scripted object store\<close>

lemma scripted_headBucket:
  "call_headBucket (scripted_env sc) b st =
     (on_headBucket sc, st\<lparr>s3 := s3 st, trace := trace st @ [HeadBucket b]\<rparr>)"
  by (simp add: call_headBucket_def sent_def scripted_env_def scripted_client_def)

lemma scripted_createMultipartUpload:
  "call_createMultipartUpload (scripted_env sc) b k m ct st =
     (on_createMultipartUpload sc,
      st\<lparr>s3 := s3 st, trace := trace st @ [CreateMultipartUpload b k m ct]\<rparr>)"
  by (simp add: call_createMultipartUpload_def sent_def scripted_env_def scripted_client_def)

lemma scripted_putObject:
  "call_putObject (scripted_env sc) b k body m st =
     (on_putObject sc, st\<lparr>s3 := s3 st, trace := trace st @ [PutObject b k body m]\<rparr>)"
  by (simp add: call_putObject_def sent_def scripted_env_def scripted_client_def)

lemma bucketExists_cache: "bucketExists env st = (r, st1) \<Longrightarrow> cache st1 = cache st"
  by (auto simp: bucketExists_def call_headBucket_def sent_def split: sum.splits if_splits)

lemma call_createMultipartUpload_cache:
  "call_createMultipartUpload env b k m ct st = (r, st1) \<Longrightarrow> cache st1 = cache st"
  by (auto simp: call_createMultipartUpload_def sent_def)

lemma saveMetadata_cache: "saveMetadata env f uid st = (r, st1) \<Longrightarrow> cache st1 = cache st"
  by (auto simp: saveMetadata_def call_putObject_def sent_def Let_def split: sum.splits)

subsection \<open>The coordinator, event by event\<close>

lemma finished_sizes_append: "finished_sizes (xs @ ys) = finished_sizes xs @ finished_sizes ys"
  by (induction xs rule: finished_sizes.induct) auto

lemma run_events_append:
  "run_events env md (xs @ ys) cs = run_events env md ys (run_events env md xs cs)"
  by (simp add: run_events_def)

lemma run_events_snoc:
  "run_events env md (xs @ [ev]) cs = on_event env md (run_events env md xs cs) ev"
  by (simp add: run_events_def)

lemma run_events_Cons:
  "run_events env md (ev # xs) cs = run_events env md xs (on_event env md cs ev)"
  by (simp add: run_events_def)

lemma on_event_finished:
  "on_event env md (co, st) (ChunkFinished path sz) =
     (co\<lparr>pendingChunkFilepath := None, current_size := js_add (current_size co) sz,
         currentPartNumber := currentPartNumber co + 1,
         promises := promises co
           @ [fst (chunk_promise env md path sz (currentPartNumber co)
                     (js_add (current_size co) sz) st)]\<rparr>,
      snd (chunk_promise env md path sz (currentPartNumber co) (js_add (current_size co) sz) st))"
  by (simp add: Let_def split: prod.splits)

lemma on_event_counters:
  "currentPartNumber (fst (on_event env md cs ev))
     = currentPartNumber (fst cs) + int (length (finished_sizes [ev]))
 \<and> current_size (fst (on_event env md cs ev))
     = foldl js_add (current_size (fst cs)) (finished_sizes [ev])"
  by (cases cs; cases ev) (simp_all add: Let_def split: prod.splits)

lemma run_events_counters:
  "currentPartNumber (fst (run_events env md evs cs))
     = currentPartNumber (fst cs) + int (length (finished_sizes evs))
 \<and> current_size (fst (run_events env md evs cs))
     = foldl js_add (current_size (fst cs)) (finished_sizes evs)"
proof (induction evs arbitrary: cs)
  case Nil
  then show ?case by (simp add: run_events_def)
next
  case (Cons ev evs)
  show ?case
    using Cons[of "on_event env md cs ev"] on_event_counters[of env md cs ev]
    by (cases ev) (simp_all add: run_events_Cons)
qed

lemma run_events_chunk:
  "run_events env md (evs1 @ [ChunkFinished path sz]) (coordinator0 n1 s0, st) =
     (case run_events env md evs1 (coordinator0 n1 s0, st) of
        (co, s) \<Rightarrow>
          (co\<lparr>pendingChunkFilepath := None,
              current_size := foldl js_add s0 (finished_sizes evs1 @ [sz]),
              currentPartNumber := n1 + int (length (finished_sizes evs1)) + 1,
              promises := promises co
                @ [fst (chunk_promise env md path sz (n1 + int (length (finished_sizes evs1)))
                          (foldl js_add s0 (finished_sizes evs1 @ [sz])) s)]\<rparr>,
           snd (chunk_promise env md path sz (n1 + int (length (finished_sizes evs1)))
                  (foldl js_add s0 (finished_sizes evs1 @ [sz])) s)))"
proof -
  obtain co s where cs: "run_events env md evs1 (coordinator0 n1 s0, st) = (co, s)"
    by (cases "run_events env md evs1 (coordinator0 n1 s0, st)") auto
  from run_events_counters[of env md evs1 "(coordinator0 n1 s0, st)"] cs
  have "currentPartNumber co = n1 + int (length (finished_sizes evs1))"
    and "current_size co = foldl js_add s0 (finished_sizes evs1)"
    by (simp_all add: coordinator0_def)
  with cs show ?thesis
    by (simp add: run_events_snoc Let_def split: prod.splits)
qed

lemma processUpload_split:
  "events rd = evs1 @ ChunkFinished path sz # evs2
   \<Longrightarrow> processUpload env md rd n1 s0 st =
       pipeline_done (pipelineErr rd)
         (run_events env md evs2
            (run_events env md (evs1 @ [ChunkFinished path sz]) (coordinator0 n1 s0, st)))"
  by (simp add: processUpload_def run_events_def)

lemma write_unfold:
  "getMetadata env file_id st = (Inr metadata, st1)
   \<Longrightarrow> countParts env file_id st1 = Some (Inr n, st2)
   \<Longrightarrow> getOffset env file_id st2 = Some (Inr initial_offset, st3)
   \<Longrightarrow> write' env rd file_id st =
       (case write_settle env file_id metadata
               (processUpload env metadata rd (n + 1) (size' initial_offset) st3) of
          None \<Rightarrow> None
        | Some (Inl e, st4) \<Rightarrow> write_catch env file_id e st4
        | Some (Inr v, st4) \<Rightarrow> Some (Inr v, st4))"
  by (simp add: write'_def write_chain_def)

lemma chunk_promise_skip:
  "file' metadata = Some f \<Longrightarrow> \<not> is_last_chunk f cur \<Longrightarrow> sz < 5 * 1024 * 1024
   \<Longrightarrow> chunk_promise env metadata path sz pn cur st = (Inr None, fs_rm path st)"
  by (simp add: chunk_promise_def)

lemma chunk_promise_upload:
  "file' metadata = Some f \<Longrightarrow> is_last_chunk f cur \<or> 5 * 1024 * 1024 \<le> sz
   \<Longrightarrow> chunk_promise env metadata path sz pn cur st =
       (map_sum id Some
          (fst (call_uploadPart env (bucket_name env) (id' f) (upload_id metadata) pn path st)),
        fs_rm path
          (snd (call_uploadPart env (bucket_name env) (id' f) (upload_id metadata) pn path st)))"
  by (auto simp: chunk_promise_def uploadPart_def split: prod.splits sum.splits)

lemma call_uploadPart_trace:
  "trace (snd (call_uploadPart env b k u n body st)) = trace st @ [UploadPart b k u n body]"
  by (simp add: call_uploadPart_def sent_def)

lemma undefined_never_last: "upload_length f = Undefined \<Longrightarrow> \<not> is_last_chunk f cur"
  by (simp add: is_last_chunk_def)

subsection \<open>Runs on the simulated object store\<close>

lemma simulated_bucket_name: "bucket_name (simulated_env t) = ''tus''"
  by (simp add: simulated_env_def)

lemma simulated_listParts:
  "call_listParts (simulated_env t) b k u m st =
     (Inr \<lparr>Parts = s3 st, NextPartNumberMarker = None\<rparr>,
      st\<lparr>s3 := s3 st, trace := trace st @ [ListParts b k u m]\<rparr>)"
  by (simp add: call_listParts_def sent_def simulated_env_def simulated_client_def)

lemma simulated_uploadPart:
  "call_uploadPart (simulated_env t) b k u n body st =
     (Inr (''etag-'' @ body),
      st\<lparr>s3 := s3 st @ [\<lparr>PartNumber = n,
                          Size = (case map_of t body of None \<Rightarrow> 0 | Some sz \<Rightarrow> sz),
                          ETag = ''etag-'' @ body\<rparr>],
         trace := trace st @ [UploadPart b k u n body]\<rparr>)"
  by (simp add: call_uploadPart_def sent_def simulated_env_def simulated_client_def)

lemma simulated_completeMultipartUpload:
  "call_completeMultipartUpload (simulated_env t) b k u ps st =
     (Inr ''location'',
      st\<lparr>s3 := s3 st, trace := trace st @ [CompleteMultipartUpload b k u ps]\<rparr>)"
  by (simp add: call_completeMultipartUpload_def sent_def simulated_env_def simulated_client_def)

lemma simulated_retrieveParts:
  "cache st file_id = Some entry
   \<Longrightarrow> retrieveParts (simulated_env t) file_id None st =
       Some (Inr (sort_and_filter (s3 st)),
             st\<lparr>s3 := s3 st, trace := trace st @ [ListParts ''tus'' file_id (upload_id entry) None]\<rparr>)"
  using retrieveParts_last_page[of st file_id entry "simulated_env t"
      "\<lparr>Parts = s3 st, NextPartNumberMarker = None\<rparr>"]
  by (simp add: simulated_listParts simulated_bucket_name truthy_def)

lemma simulated_countParts:
  "cache st file_id = Some entry
   \<Longrightarrow> countParts (simulated_env t) file_id st =
       Some (Inr (int (length (sort_and_filter (s3 st)))),
             st\<lparr>s3 := s3 st, trace := trace st @ [ListParts ''tus'' file_id (upload_id entry) None]\<rparr>)"
  by (simp add: countParts_def simulated_retrieveParts)

lemma simulated_getOffset:
  "cache st file_id = Some entry \<Longrightarrow> file' entry = Some f
   \<Longrightarrow> getOffset (simulated_env t) file_id st =
       Some (Inr \<lparr>file_props = Some f,
                  size' = Num (sum_list (map Size (sort_and_filter (s3 st)))),
                  upload_length' = upload_length f,
                  upload_defer_length' = upload_defer_length f,
                  parts = Some (sort_and_filter (s3 st))\<rparr>,
             st\<lparr>s3 := s3 st, trace := trace st @ [ListParts ''tus'' file_id (upload_id entry) None]\<rparr>)"
  by (simp add: getOffset_def getMetadata_hit simulated_retrieveParts foldl_Size)

lemma parseInt_20MiB: "parseInt_string ''20971520'' = Some 20971520"
  by (simp add: parseInt_string_def StrWhiteSpaceChar_def is_digit_def digit_value_def)


lemma a_state_sel [simp]:
  "cache (a_state len w tr) ''a'' = Some (a_session len)"
  "s3 (a_state len w tr) = w"
  "trace (a_state len w tr) = tr"
  by (simp_all add: a_state_def)

lemma a_state_upd [simp]:
  "(a_state len w tr)\<lparr>s3 := w1\<rparr> = a_state len w1 tr"
  "(a_state len w tr)\<lparr>trace := tr1\<rparr> = a_state len w tr1"
  by (simp_all add: a_state_def)

lemma a_session_sel [simp]:
  "file' (a_session len) = Some (an_upload len)"
  "upload_id (a_session len) = Some ''mpu''"
  by (simp_all add: a_session_def)

lemma an_upload_sel [simp]:
  "id' (an_upload len) = ''a''"
  "upload_length (an_upload len) = len"
  "upload_defer_length (an_upload len) = Undefined"
  by (simp_all add: an_upload_def)

lemma a_state_getMetadata:
  "getMetadata env ''a'' (a_state len w tr) = (Inr (a_session len), a_state len w tr)"
  by (simp add: getMetadata_hit[of _ _ "a_session len"])

lemma a_state_clearCache:
  "cache (clearCache ''a'' (a_state len w tr)) ''a'' = None
 \<and> trace (clearCache ''a'' (a_state len w tr)) = tr
 \<and> s3 (clearCache ''a'' (a_state len w tr)) = w"
  by (simp add: clearCache_def a_state_def)

lemma sim_countParts:
  "countParts (simulated_env t) ''a'' (a_state len ps tr) =
     Some (Inr (int (length (sort_and_filter ps))),
           a_state len ps (tr @ [ListParts ''tus'' ''a'' (Some ''mpu'') None]))"
  by (simp add: simulated_countParts[of _ _ "a_session len"])

lemma sim_getOffset:
  "getOffset (simulated_env t) ''a'' (a_state len ps tr) =
     Some (Inr \<lparr>file_props = Some (an_upload len),
                size' = Num (sum_list (map Size (sort_and_filter ps))),
                upload_length' = len,
                upload_defer_length' = Undefined,
                parts = Some (sort_and_filter ps)\<rparr>,
           a_state len ps (tr @ [ListParts ''tus'' ''a'' (Some ''mpu'') None]))"
  by (simp add: simulated_getOffset[of _ _ "a_session len" "an_upload len"])

lemma sim_chunk_promise:
  "chunk_promise (simulated_env t) (a_session len) path sz pn cur (a_state len ps tr) =
     (if \<not> is_last_chunk (an_upload len) cur \<and> sz < 5 * 1024 * 1024
      then (Inr None, a_state len ps (tr @ [FsRm path]))
      else (Inr (Some (''etag-'' @ path)),
            a_state len
              (ps @ [\<lparr>PartNumber = pn,
                      Size = (case map_of t path of None \<Rightarrow> 0 | Some sz \<Rightarrow> sz),
                      ETag = ''etag-'' @ path\<rparr>])
              (tr @ [UploadPart ''tus'' ''a'' (Some ''mpu'') pn path, FsRm path])))"
  by (simp add: chunk_promise_def uploadPart_def simulated_uploadPart simulated_bucket_name
      fs_rm_def)

lemma sim_finish:
  "finishMultipartUpload (simulated_env t) (a_session len) (Some ps1) (a_state len ps tr) =
     (Inr ''location'',
      a_state len ps
        (tr @ [CompleteMultipartUpload ''tus'' ''a'' (Some ''mpu'')
                 (map (\<lambda>p. (ETag p, PartNumber p)) ps1)]))"
  by (simp add: finishMultipartUpload_def simulated_completeMultipartUpload simulated_bucket_name)

lemma three_chunks_coordinator:
  "processUpload (simulated_env three_sizes) (a_session (Str ''20971520'')) three_chunks 1 (Num 0)
     (a_state (Str ''20971520'') [] tr) =
   ([Inr (Some ''etag-c1''), Inr (Some ''etag-c2''), Inr (Some ''etag-c3''), Inr None],
    a_state (Str ''20971520'')
      [\<lparr>PartNumber = 1, Size = 8388608, ETag = ''etag-c1''\<rparr>,
       \<lparr>PartNumber = 2, Size = 8388608, ETag = ''etag-c2''\<rparr>,
       \<lparr>PartNumber = 3, Size = 4194304, ETag = ''etag-c3''\<rparr>]
      (tr @ [UploadPart ''tus'' ''a'' (Some ''mpu'') 1 ''c1'', FsRm ''c1'',
             UploadPart ''tus'' ''a'' (Some ''mpu'') 2 ''c2'', FsRm ''c2'',
             UploadPart ''tus'' ''a'' (Some ''mpu'') 3 ''c3'', FsRm ''c3'']))"
  by (simp add: processUpload_def run_events_def three_chunks_def coordinator0_def Let_def
      sim_chunk_promise is_last_chunk_def parseInt_20MiB three_sizes_def pipeline_done_def)

lemma three_chunks_split:
  "events three_chunks = three_prefix @ ChunkFinished ''c3'' 4194304 # []"
  by (simp add: three_chunks_def three_prefix_def)

lemma parseInt_30MiB: "parseInt_string ''31457280'' = Some 31457280"
  by (simp add: parseInt_string_def StrWhiteSpaceChar_def is_digit_def digit_value_def)

lemma three_prefix_run:
  "run_events (simulated_env three_sizes) (a_session len) three_prefix
     (coordinator0 1 (Num 0), a_state len [] tr) =
   (\<lparr>promises = [Inr (Some ''etag-c1''), Inr (Some ''etag-c2'')],
     pendingChunkFilepath = Some ''c3'',
     current_size = Num 16777216,
     currentPartNumber = 3\<rparr>,
    a_state len
      [\<lparr>PartNumber = 1, Size = 8388608, ETag = ''etag-c1''\<rparr>,
       \<lparr>PartNumber = 2, Size = 8388608, ETag = ''etag-c2''\<rparr>]
      (tr @ [UploadPart ''tus'' ''a'' (Some ''mpu'') 1 ''c1'', FsRm ''c1'',
             UploadPart ''tus'' ''a'' (Some ''mpu'') 2 ''c2'', FsRm ''c2'']))"
  by (simp add: run_events_def three_prefix_def coordinator0_def Let_def
      sim_chunk_promise three_sizes_def)

lemma finished_three_prefix: "finished_sizes three_prefix = [8388608, 8388608]"
  by (simp add: three_prefix_def)

lemma sort_and_filter_Nil: "sort_and_filter [] = []"
  by (simp add: sort_and_filter_def filter_index_def)

lemma three_all_run:
  "run_events (simulated_env three_sizes) (a_session len)
     (three_prefix @ [ChunkFinished ''c3'' 4194304]) (coordinator0 1 (Num 0), a_state len [] []) =
   (if is_last_chunk (an_upload len) (Num 20971520)
    then (\<lparr>promises = [Inr (Some ''etag-c1''), Inr (Some ''etag-c2''), Inr (Some ''etag-c3'')],
           pendingChunkFilepath = None,
           current_size = Num 20971520,
           currentPartNumber = 4\<rparr>,
          a_state len
            [\<lparr>PartNumber = 1, Size = 8388608, ETag = ''etag-c1''\<rparr>,
             \<lparr>PartNumber = 2, Size = 8388608, ETag = ''etag-c2''\<rparr>,
             \<lparr>PartNumber = 3, Size = 4194304, ETag = ''etag-c3''\<rparr>]
            [UploadPart ''tus'' ''a'' (Some ''mpu'') 1 ''c1'', FsRm ''c1'',
             UploadPart ''tus'' ''a'' (Some ''mpu'') 2 ''c2'', FsRm ''c2'',
             UploadPart ''tus'' ''a'' (Some ''mpu'') 3 ''c3'', FsRm ''c3''])
    else (\<lparr>promises = [Inr (Some ''etag-c1''), Inr (Some ''etag-c2''), Inr None],
           pendingChunkFilepath = None,
           current_size = Num 20971520,
           currentPartNumber = 4\<rparr>,
          a_state len
            [\<lparr>PartNumber = 1, Size = 8388608, ETag = ''etag-c1''\<rparr>,
             \<lparr>PartNumber = 2, Size = 8388608, ETag = ''etag-c2''\<rparr>]
            [UploadPart ''tus'' ''a'' (Some ''mpu'') 1 ''c1'', FsRm ''c1'',
             UploadPart ''tus'' ''a'' (Some ''mpu'') 2 ''c2'', FsRm ''c2'',
             FsRm ''c3'']))"
  using three_prefix_run[of len "[]"]
  by (simp add: run_events_snoc Let_def sim_chunk_promise three_sizes_def)

subsection \<open>The cache during a write\<close>

lemma sent_cache: "cache (snd (sent c rw st)) = cache st"
  by (simp add: sent_def)

lemma chunk_promise_cache:
  "cache (snd (chunk_promise env md path sz pn cur st)) = cache st"
  by (simp add: chunk_promise_def uploadPart_def call_uploadPart_def sent_def fs_rm_def
      split: option.splits prod.splits sum.splits)

lemma on_event_cache: "cache (snd (on_event env md cs ev)) = cache (snd cs)"
proof (cases cs)
  case (Pair co st)
  show ?thesis
  proof (cases ev)
    case (ChunkStarted p)
    with Pair show ?thesis by simp
  next
    case (ChunkFinished path sz)
    with Pair chunk_promise_cache[of env md path sz "currentPartNumber co"
        "js_add (current_size co) sz" st]
    show ?thesis by (auto simp: Let_def split: prod.splits)
  qed
qed

lemma run_events_cache: "cache (snd (run_events env md evs cs)) = cache (snd cs)"
  by (induction evs arbitrary: cs) (simp_all add: run_events_def on_event_cache)

lemma processUpload_cache:
  "processUpload env md rd n s0 st = (ps, st1) \<Longrightarrow> cache st1 = cache st"
  using run_events_cache[of env md "events rd" "(coordinator0 n s0, st)"]
  by (auto simp: processUpload_def pipeline_done_def fs_rm_def split: prod.splits option.splits)

lemma countParts_cache:
  "countParts env file_id st = Some (r, st1) \<Longrightarrow> cache st1 = cache st"
  by (auto simp: countParts_def split: option.splits prod.splits sum.splits
      dest: retrieveParts_cache)

lemma getOffset_cache:
  assumes "cache st file_id = Some metadata" and "file' metadata = Some f"
    and "getOffset env file_id st = Some (r, st1)"
  shows "cache st1 = cache st"
proof -
  have g: "getMetadata env file_id st = (Inr metadata, st)"
    using assms(1,2) by (simp add: getMetadata_hit)
  from assms(3) show ?thesis
    unfolding getOffset_def g
    by (auto split: option.splits prod.splits sum.splits if_splits dest: retrieveParts_cache)
qed

lemma finishMultipartUpload_cache:
  "finishMultipartUpload env md ps st = (r, st1) \<Longrightarrow> cache st1 = cache st"
  by (auto simp: finishMultipartUpload_def call_completeMultipartUpload_def sent_def
      split: option.splits)

lemma write_finish_error_cache:
  "write_finish env md file_id off st = (Inl e, st1) \<Longrightarrow> cache st1 = cache st"
  by (auto simp: write_finish_def split: option.splits if_splits prod.splits sum.splits
      dest: finishMultipartUpload_cache)

lemma write_chain_error_cache:
  assumes "cache st file_id = Some metadata" and "file' metadata = Some f"
    and "write_chain env rd file_id metadata n off0 st = Some (Inl e, st1)"
  shows "cache st1 = cache st"
proof -
  obtain ps s1 where p: "processUpload env metadata rd (n + 1) (size' off0) st = (ps, s1)"
    by (cases "processUpload env metadata rd (n + 1) (size' off0) st") auto
  then have c1: "cache s1 = cache st" by (rule processUpload_cache)
  show ?thesis
  proof (cases "Promise_all (timed env metadata ps)")
    case (Inl e1)
    with assms(3) p c1 show ?thesis
      by (simp add: write_chain_def write_settle_def)
  next
    case (Inr vs)
    with assms(3) p obtain r s2 where g: "getOffset env file_id s1 = Some (r, s2)"
      by (auto simp: write_chain_def write_settle_def split: option.splits)
    have "cache s1 file_id = Some metadata"
      using assms(1) c1 by simp
    from getOffset_cache[OF this assms(2) g] have c2: "cache s2 = cache s1" .
    show ?thesis
    proof (cases r)
      case (Inl e1)
      with assms(3) p Inr g c1 c2 show ?thesis
        by (simp add: write_chain_def write_settle_def)
    next
      case (Inr off)
      with assms(3) p \<open>Promise_all (timed env metadata ps) = Inr vs\<close> g
      have "write_finish env metadata file_id off s2 = (Inl e, st1)"
        by (simp add: write_chain_def write_settle_def)
      then have "cache st1 = cache s2" by (rule write_finish_error_cache)
      with c1 c2 show ?thesis by simp
    qed
  qed
qed

lemma write_chain_coordinator_error:
  "processUpload env metadata rd (n + 1) (size' initial_offset) st3 = (ps, st4)
   \<Longrightarrow> Promise_all (timed env metadata ps) = Inl e
   \<Longrightarrow> write_chain env rd file_id metadata n initial_offset st3 = Some (Inl e, st4)"
  by (simp add: write_chain_def write_settle_def)

lemma write_chain_error:
  "getMetadata env file_id st = (Inr metadata, st1)
   \<Longrightarrow> countParts env file_id st1 = Some (Inr n, st2)
   \<Longrightarrow> getOffset env file_id st2 = Some (Inr initial_offset, st3)
   \<Longrightarrow> write_chain env rd file_id metadata n initial_offset st3 = Some (Inl e, st4)
   \<Longrightarrow> write' env rd file_id st = write_catch env file_id e st4"
  by (simp add: write'_def)

lemma write_chain_value:
  "getMetadata env file_id st = (Inr metadata, st1)
   \<Longrightarrow> countParts env file_id st1 = Some (Inr n, st2)
   \<Longrightarrow> getOffset env file_id st2 = Some (Inr initial_offset, st3)
   \<Longrightarrow> write_chain env rd file_id metadata n initial_offset st3 = Some (Inr v, st4)
   \<Longrightarrow> write' env rd file_id st = Some (Inr v, st4)"
  by (simp add: write'_def)

lemma graceful_iff:
  "graceful e \<longleftrightarrow> code e = Some ''RequestTimeout'' \<or> code e = Some ''NoSuchUpload''"
  by (auto simp: graceful_def)

subsection \<open>Runs on the scripted object store\<close>

lemma fading_retrieveParts:
  "retrieveParts (scripted_env (fading_script n ps late fin)) ''a'' None (a_state len k tr) =
     (if k < n
      then Some (Inr (sort_and_filter ps),
                 a_state len (Suc k) (tr @ [ListParts ''tus'' ''a'' (Some ''mpu'') None]))
      else Some (Inl late,
                 a_state len (Suc k) (tr @ [ListParts ''tus'' ''a'' (Some ''mpu'') None])))"
proof (cases "k < n")
  case True
  then show ?thesis
    using retrieveParts_last_page[of "a_state len k tr" "''a''" "a_session len"
        "scripted_env (fading_script n ps late fin)"
        "\<lparr>Parts = ps, NextPartNumberMarker = None\<rparr>"]
    by (simp add: scripted_listParts scripted_bucket_name fading_script_def truthy_def)
next
  case False
  then show ?thesis
    using retrieveParts_error[of "a_state len k tr" "''a''" "a_session len"
        "scripted_env (fading_script n ps late fin)" None late]
    by (simp add: scripted_listParts scripted_bucket_name fading_script_def truthy_def)
qed

lemma fading_countParts:
  "countParts (scripted_env (fading_script n ps late fin)) ''a'' (a_state len k tr) =
     (if k < n
      then Some (Inr (int (length (sort_and_filter ps))),
                 a_state len (Suc k) (tr @ [ListParts ''tus'' ''a'' (Some ''mpu'') None]))
      else Some (Inl late,
                 a_state len (Suc k) (tr @ [ListParts ''tus'' ''a'' (Some ''mpu'') None])))"
  by (simp add: countParts_def fading_retrieveParts)

lemma fading_getOffset:
  "getOffset (scripted_env (fading_script n ps late fin)) ''a'' (a_state len k tr) =
     (if k < n
      then Some (Inr \<lparr>file_props = Some (an_upload len),
                       size' = Num (sum_list (map Size (sort_and_filter ps))),
                       upload_length' = len, upload_defer_length' = Undefined,
                       parts = Some (sort_and_filter ps)\<rparr>,
                 a_state len (Suc k) (tr @ [ListParts ''tus'' ''a'' (Some ''mpu'') None]))
      else if code late \<noteq> Some ''NoSuchUpload''
      then Some (Inl late,
                 a_state len (Suc k) (tr @ [ListParts ''tus'' ''a'' (Some ''mpu'') None]))
      else Some (Inr \<lparr>file_props = Some (an_upload len),
                       size' = len,
                       upload_length' = len, upload_defer_length' = Undefined,
                       parts = None\<rparr>,
                 a_state len (Suc k) (tr @ [ListParts ''tus'' ''a'' (Some ''mpu'') None])))"
  by (simp add: getOffset_def a_state_getMetadata fading_retrieveParts foldl_Size)

lemma fading_finish:
  "finishMultipartUpload (scripted_env (fading_script n ps late fin)) (a_session len) (Some ps1)
     (a_state len k tr) =
     (fin, a_state len k
        (tr @ [CompleteMultipartUpload ''tus'' ''a'' (Some ''mpu'')
                 (map (\<lambda>p. (ETag p, PartNumber p)) ps1)]))"
  by (simp add: finishMultipartUpload_def call_completeMultipartUpload_def sent_def
      scripted_env_def scripted_client_def fading_script_def)

lemma no_chunks_processUpload:
  "processUpload env md (no_chunks err) n s0 st =
     ([case err of None \<Rightarrow> Inr None | Some e \<Rightarrow> Inl e], st)"
  by (simp add: processUpload_def run_events_def no_chunks_def pipeline_done_def coordinator0_def
      split: option.splits)

lemma a_part_sel [simp]:
  "PartNumber (a_part n sz) = n" "Size (a_part n sz) = sz" "ETag (a_part n sz) = ''etag''"
  by (simp_all add: a_part_def)

lemma sort_and_filter_single: "sort_and_filter [a_part 1 sz] = [a_part 1 sz]"
  by (simp add: sort_and_filter_def filter_index_def a_part_def enumerate_eq_zip)

lemma parseInt_100: "parseInt_string ''100'' = Some 100"
  by (simp add: parseInt_string_def StrWhiteSpaceChar_def is_digit_def digit_value_def)

lemma three_parts_sorted:
  "sort_and_filter
     [\<lparr>PartNumber = 1, Size = 8388608, ETag = ''etag-c1''\<rparr>,
      \<lparr>PartNumber = 2, Size = 8388608, ETag = ''etag-c2''\<rparr>,
      \<lparr>PartNumber = 3, Size = 4194304, ETag = ''etag-c3''\<rparr>] =
     [\<lparr>PartNumber = 1, Size = 8388608, ETag = ''etag-c1''\<rparr>,
      \<lparr>PartNumber = 2, Size = 8388608, ETag = ''etag-c2''\<rparr>,
      \<lparr>PartNumber = 3, Size = 4194304, ETag = ''etag-c3''\<rparr>]"
  by (simp add: sort_and_filter_def filter_index_def enumerate_eq_zip upt_rec)


subsection \<open>The rejection of \<open>Promise.all\<close>\<close>

lemma rejections_mem: "(t, e) \<in> set (rejections ps) \<longleftrightarrow> (t, Inl e) \<in> set ps"
  by (induction ps rule: rejections.induct) auto

lemma first_rejection_mem: "first_rejection rs = Some (t, e) \<Longrightarrow> (t, e) \<in> set rs"
  by (induction rs arbitrary: t e rule: first_rejection.induct)
    (auto split: option.splits if_splits)

lemma first_rejection_None: "first_rejection rs = None \<longleftrightarrow> rs = []"
  by (cases rs) (auto split: option.splits if_splits)

lemma first_rejection_least:
  "first_rejection rs = Some (t, e) \<Longrightarrow> (t1, e1) \<in> set rs \<Longrightarrow> t \<le> t1"
proof (induction rs arbitrary: t e)
  case Nil
  then show ?case by simp
next
  case (Cons r rs)
  obtain t0 e0 where r: "r = (t0, e0)" by (cases r)
  show ?case
  proof (cases "first_rejection rs")
    case None
    then have "rs = []" by (simp add: first_rejection_None)
    with Cons.prems r show ?thesis by simp
  next
    case (Some m)
    obtain t2 e2 where m: "m = (t2, e2)" by (cases m)
    have l: "(t1, e1) \<in> set rs \<Longrightarrow> t2 \<le> t1"
      using Cons.IH[of t2 e2] Some m by simp
    from Cons.prems r Some m l show ?thesis
      by (auto split: if_splits)
  qed
qed

lemma Promise_all_rejects:
  assumes "Promise_all ps = Inl e"
  shows "\<exists>t. (t, Inl e) \<in> set ps \<and> (\<forall>t1 e1. (t1, Inl e1) \<in> set ps \<longrightarrow> t \<le> t1)"
proof -
  from assms obtain t where f: "first_rejection (rejections ps) = Some (t, e)"
    by (auto simp: Promise_all_def split: option.splits)
  from first_rejection_mem[OF f] first_rejection_least[OF f] show ?thesis
    by (auto simp: rejections_mem)
qed

lemma Promise_all_resolves:
  "Promise_all ps = Inr vs \<longleftrightarrow> (\<forall>t e. (t, Inl e) \<notin> set ps) \<and> vs = fulfilled ps"
proof -
  have "rejections ps = [] \<longleftrightarrow> (\<forall>t e. (t, Inl e) \<notin> set ps)"
    using rejections_mem[of _ _ ps] by (metis all_not_in_conv old.prod.exhaust set_empty)
  then show ?thesis
    by (auto simp: Promise_all_def first_rejection_None split: option.splits)
qed

subsection \<open>Runs on the object store whose uploads fail\<close>

lemma failing_retrieveParts:
  "retrieveParts (scripted_env (failing_script e t)) ''a'' None (a_state len k tr) =
     Some (Inr [], a_state len (Suc k) (tr @ [ListParts ''tus'' ''a'' (Some ''mpu'') None]))"
  using retrieveParts_last_page[of "a_state len k tr" "''a''" "a_session len"
      "scripted_env (failing_script e t)" "\<lparr>Parts = [], NextPartNumberMarker = None\<rparr>"]
  by (simp add: scripted_listParts scripted_bucket_name failing_script_def truthy_def
      sort_and_filter_Nil)

lemma failing_countParts:
  "countParts (scripted_env (failing_script e t)) ''a'' (a_state len k tr) =
     Some (Inr 0, a_state len (Suc k) (tr @ [ListParts ''tus'' ''a'' (Some ''mpu'') None]))"
  by (simp add: countParts_def failing_retrieveParts)

lemma failing_getOffset:
  "getOffset (scripted_env (failing_script e t)) ''a'' (a_state len k tr) =
     Some (Inr \<lparr>file_props = Some (an_upload len), size' = Num 0,
                upload_length' = len, upload_defer_length' = Undefined, parts = Some []\<rparr>,
           a_state len (Suc k) (tr @ [ListParts ''tus'' ''a'' (Some ''mpu'') None]))"
  by (simp add: getOffset_def a_state_getMetadata failing_retrieveParts)

lemma failing_processUpload:
  "processUpload (scripted_env (failing_script e t)) (a_session (Str ''20971520''))
     (broken_body err) 1 (Num 0) (a_state (Str ''20971520'') k tr) =
   ([Inl e, Inl err],
    a_state (Str ''20971520'') k
      (tr @ [UploadPart ''tus'' ''a'' (Some ''mpu'') 1 ''c1'', FsRm ''c1'', FsRm ''c2'']))"
  by (simp add: processUpload_def run_events_def broken_body_def coordinator0_def Let_def
      chunk_promise_def uploadPart_def call_uploadPart_def sent_def scripted_env_def
      scripted_client_def failing_script_def is_last_chunk_def parseInt_20MiB
      pipeline_done_def fs_rm_def)

lemma failing_timed:
  "timed (scripted_env (failing_script e t)) (a_session len) [Inl e, Inl err] =
     [(t, Inl e), (0, Inl err)]"
  by (simp add: timed_def scripted_env_def failing_script_def)
subsection \<open>Listing the parts\<close>

lemma retrieveParts_pages:
  assumes "concatenated_pages env file_id uid m st ps st1"
    and "cache st file_id = Some entry" and "upload_id entry = uid"
  shows "retrieveParts env file_id m st
           = Some (Inr (if m = None then sort_and_filter ps else ps), st1)"
  using assms
proof (induction rule: concatenated_pages.induct)
  case (last_page m st data st1)
  then show ?case
    by (subst retrieveParts.simps) simp
next
  case (next_page m st data st1 val st2)
  from next_page.hyps(1) have c: "cache st1 = cache st"
    by (rule call_listParts_cache)
  with next_page have ih: "retrieveParts env file_id (NextPartNumberMarker data) st1
      = Some (Inr val, st2)"
    by (simp add: truthy_not_None)
  from next_page.hyps(1,2) next_page.prems ih show ?case
    by (subst retrieveParts.simps) simp
qed

lemma filter_enumerate_none:
  "sorted_wrt (<) (map PartNumber xs) \<Longrightarrow> \<forall>x\<in>set xs. int k + 1 < PartNumber x
   \<Longrightarrow> filter (\<lambda>(i, v). PartNumber v = int i + 1) (enumerate k xs) = []"
proof (induction xs arbitrary: k)
  case Nil
  then show ?case by simp
next
  case (Cons x xs)
  have "\<forall>y\<in>set xs. int (Suc k) + 1 < PartNumber y"
    using Cons.prems by auto
  with Cons show ?case by auto
qed

lemma filter_enumerate_prefix:
  "sorted_wrt (<) (map PartNumber xs) \<Longrightarrow> \<forall>x\<in>set xs. int k + 1 \<le> PartNumber x
   \<Longrightarrow> \<exists>n\<le>length xs.
         map snd (filter (\<lambda>(i, v). PartNumber v = int i + 1) (enumerate k xs)) = take n xs
       \<and> map PartNumber (take n xs) = map int [Suc k..<Suc k + n]
       \<and> int (k + n) + 1 \<notin> PartNumber ` set xs"
proof (induction xs arbitrary: k)
  case Nil
  then show ?case by simp
next
  case (Cons x xs)
  show ?case
  proof (cases "PartNumber x = int k + 1")
    case True
    have "\<forall>y\<in>set xs. int (Suc k) + 1 \<le> PartNumber y"
      using Cons.prems True by auto
    with Cons.IH[of "Suc k"] Cons.prems obtain n where n: "n \<le> length xs"
      "map snd (filter (\<lambda>(i, v). PartNumber v = int i + 1) (enumerate (Suc k) xs)) = take n xs"
      "map PartNumber (take n xs) = map int [Suc (Suc k)..<Suc (Suc k) + n]"
      "int (Suc k + n) + 1 \<notin> PartNumber ` set xs"
      by auto
    show ?thesis
    proof (intro exI[of _ "Suc n"] conjI)
      show "Suc n \<le> length (x # xs)" using n by simp
      show "map snd (filter (\<lambda>(i, v). PartNumber v = int i + 1) (enumerate k (x # xs))) = take (Suc n) (x # xs)"
        using n True by simp
      show "map PartNumber (take (Suc n) (x # xs)) = map int [Suc k..<Suc k + Suc n]"
        using n True by (simp add: upt_rec[of "Suc k"])
      show "int (k + Suc n) + 1 \<notin> PartNumber ` set (x # xs)"
        using n True by auto
    qed
  next
    case False
    with Cons.prems have lt: "int k + 1 < PartNumber x" by auto
    have "\<forall>y\<in>set xs. int (Suc k) + 1 < PartNumber y"
      using Cons.prems lt by auto
    with Cons.prems have "filter (\<lambda>(i, v). PartNumber v = int i + 1) (enumerate (Suc k) xs) = []"
      by (intro filter_enumerate_none) auto
    moreover have "int k + 1 \<notin> PartNumber ` set (x # xs)"
      using Cons.prems lt by auto
    ultimately show ?thesis
      using False by (intro exI[of _ 0]) simp
  qed
qed


lemma sorted_parts_strict:
  assumes "distinct (map PartNumber ps)"
  shows "sorted_wrt (<) (map PartNumber (sort_key PartNumber ps))"
proof -
  have "distinct (map PartNumber (sort_key PartNumber ps))"
    using assms by (simp add: distinct_map)
  then show ?thesis
    by (simp add: strict_sorted_iff)
qed

lemma sort_and_filter_prefix:
  assumes "distinct (map PartNumber ps)" and "\<forall>p\<in>set ps. 1 \<le> PartNumber p"
  shows "sort_and_filter ps = take (length (sort_and_filter ps)) (sort_key PartNumber ps)
       \<and> (\<forall>i<length (sort_and_filter ps). PartNumber (sort_and_filter ps ! i) = int i + 1)
       \<and> int (length (sort_and_filter ps)) + 1 \<notin> PartNumber ` set ps"
proof -
  let ?xs = "sort_key PartNumber ps"
  have "\<forall>x\<in>set ?xs. int 0 + 1 \<le> PartNumber x"
    using assms(2) by simp
  with sorted_parts_strict[OF assms(1)] filter_enumerate_prefix[of ?xs 0]
  obtain n where n: "n \<le> length ?xs" "sort_and_filter ps = take n ?xs"
    "map PartNumber (take n ?xs) = map int [Suc 0..<Suc 0 + n]"
    "int (0 + n) + 1 \<notin> PartNumber ` set ?xs"
    unfolding sort_and_filter_def filter_index_def by blast
  have len: "length (sort_and_filter ps) = n"
    using n(1,2) by simp
  have "\<forall>i<n. PartNumber (take n ?xs ! i) = int i + 1"
  proof (intro allI impI)
    fix i assume i: "i < n"
    then have "map PartNumber (take n ?xs) ! i = map int [Suc 0..<Suc 0 + n] ! i"
      using n(3) by simp
    with i n(1) show "PartNumber (take n ?xs ! i) = int i + 1"
      by (simp del: upt_Suc)
  qed
  with n len show ?thesis by simp
qed

text \<open>
  C1. The object store lists parts with distinct part numbers, all at least 1. For every
  such list, put together from the pages of \<open>listParts\<close>, the call of
  \<open>_retrieveParts\<close> without a marker returns the list sorted by \<open>PartNumber\<close> and cut
  down to its contiguous prefix: the result is an initial piece of the sorted list, its
  entry at index \<open>i\<close> has part number \<open>i + 1\<close>, and the next number is not in the list
  at all. So the result is the parts numbered 1 to N, also when the list has gaps.
\<close>

theorem retrieveParts_contiguous_prefix:
  assumes "cache st file_id = Some entry"
    and "concatenated_pages env file_id (upload_id entry) None st ps st1"
    and "distinct (map PartNumber ps)"
    and "\<forall>p\<in>set ps. 1 \<le> PartNumber p"
  shows "retrieveParts env file_id None st = Some (Inr (sort_and_filter ps), st1)
       \<and> sort_and_filter ps = take (length (sort_and_filter ps)) (sort_key PartNumber ps)
       \<and> (\<forall>i<length (sort_and_filter ps). PartNumber (sort_and_filter ps ! i) = int i + 1)
       \<and> int (length (sort_and_filter ps)) + 1 \<notin> PartNumber ` set ps"
  using retrieveParts_pages[OF assms(2,1)] sort_and_filter_prefix[OF assms(3,4)]
  by simp

lemma gap_pages:
  "concatenated_pages (scripted_env gap_script) ''a'' (Some ''mpu'') None (cached_start Undefined)
     ([a_part 3 30, a_part 1 10] @ [a_part 5 50, a_part 2 20])
     (cached_start Undefined
        \<lparr>s3 := 2,
         trace := [ListParts ''tus'' ''a'' (Some ''mpu'') None,
                   ListParts ''tus'' ''a'' (Some ''mpu'') (Some 3)]\<rparr>)"
proof -
  let ?env = "scripted_env gap_script"
  let ?st1 = "cached_start Undefined
        \<lparr>s3 := 1, trace := [ListParts ''tus'' ''a'' (Some ''mpu'') None]\<rparr>"
  let ?p1 = "\<lparr>Parts = [a_part 3 30, a_part 1 10], NextPartNumberMarker = Some 3\<rparr>"
  let ?p2 = "\<lparr>Parts = [a_part 5 50, a_part 2 20], NextPartNumberMarker = None\<rparr>"
  have 1: "call_listParts ?env (bucket_name ?env) ''a'' (Some ''mpu'')
             (if truthy None then None else None) (cached_start Undefined) = (Inr ?p1, ?st1)"
    by (simp add: call_listParts_def sent_def scripted_env_def scripted_client_def
        gap_script_def cached_start_def start_def)
  have 2: "call_listParts ?env (bucket_name ?env) ''a'' (Some ''mpu'')
             (if truthy (NextPartNumberMarker ?p1) then NextPartNumberMarker ?p1 else None) ?st1
           = (Inr ?p2, cached_start Undefined
        \<lparr>s3 := 2,
         trace := [ListParts ''tus'' ''a'' (Some ''mpu'') None,
                   ListParts ''tus'' ''a'' (Some ''mpu'') (Some 3)]\<rparr>)"
    by (simp add: call_listParts_def sent_def scripted_env_def scripted_client_def
        gap_script_def cached_start_def start_def truthy_def)
  have 3: "concatenated_pages ?env ''a'' (Some ''mpu'') (NextPartNumberMarker ?p1) ?st1
      (Parts ?p2) (cached_start Undefined
        \<lparr>s3 := 2,
         trace := [ListParts ''tus'' ''a'' (Some ''mpu'') None,
                   ListParts ''tus'' ''a'' (Some ''mpu'') (Some 3)]\<rparr>)"
    by (rule last_page[OF 2]) (simp add: truthy_def)
  have "concatenated_pages ?env ''a'' (Some ''mpu'') None (cached_start Undefined)
      (Parts ?p1 @ Parts ?p2) (cached_start Undefined
        \<lparr>s3 := 2,
         trace := [ListParts ''tus'' ''a'' (Some ''mpu'') None,
                   ListParts ''tus'' ''a'' (Some ''mpu'') (Some 3)]\<rparr>)"
    by (rule next_page[OF 1 _ 3]) (simp add: truthy_def)
  then show ?thesis by simp
qed

lemma gap_sorted:
  "sort_and_filter ([a_part 3 30, a_part 1 10] @ [a_part 5 50, a_part 2 20])
     = [a_part 1 10, a_part 2 20, a_part 3 30]"
  by (simp add: sort_and_filter_def filter_index_def a_part_def enumerate_eq_zip upt_rec)

theorem retrieveParts_contiguous_prefix_witness:
  "cache (cached_start Undefined) ''a'' = Some (a_session Undefined)
 \<and> distinct (map PartNumber [a_part 3 30, a_part 1 10, a_part 5 50, a_part 2 20])
 \<and> list_all (\<lambda>p. 1 \<le> PartNumber p) [a_part 3 30, a_part 1 10, a_part 5 50, a_part 2 20]
 \<and> map_option fst (retrieveParts (scripted_env gap_script) ''a'' None (cached_start Undefined))
     = Some (Inr [a_part 1 10, a_part 2 20, a_part 3 30])
 \<and> 4 \<notin> PartNumber ` set [a_part 3 30, a_part 1 10, a_part 5 50, a_part 2 20]"
proof -
  let ?ps = "[a_part 3 30, a_part 1 10] @ [a_part 5 50, a_part 2 20]"
  have c: "cache (cached_start Undefined) ''a'' = Some (a_session Undefined)"
    by (simp add: cached_start_def start_def)
  have u: "upload_id (a_session Undefined) = Some ''mpu''"
    by (simp add: a_session_def)
  have d: "distinct (map PartNumber ?ps)"
    by (simp add: a_part_def)
  have p: "\<forall>p\<in>set ?ps. 1 \<le> PartNumber p"
    by (simp add: a_part_def)
  have g: "concatenated_pages (scripted_env gap_script) ''a'' (upload_id (a_session Undefined))
      None (cached_start Undefined) ?ps
      (cached_start Undefined
        \<lparr>s3 := 2,
         trace := [ListParts ''tus'' ''a'' (Some ''mpu'') None,
                   ListParts ''tus'' ''a'' (Some ''mpu'') (Some 3)]\<rparr>)"
    unfolding u by (rule gap_pages)
  note t = retrieveParts_contiguous_prefix[OF c g d p]
  from t have "retrieveParts (scripted_env gap_script) ''a'' None (cached_start Undefined)
      = Some (Inr (sort_and_filter ?ps), cached_start Undefined
        \<lparr>s3 := 2,
         trace := [ListParts ''tus'' ''a'' (Some ''mpu'') None,
                   ListParts ''tus'' ''a'' (Some ''mpu'') (Some 3)]\<rparr>)"
    by (rule conjunct1)
  then have r: "map_option fst
      (retrieveParts (scripted_env gap_script) ''a'' None (cached_start Undefined))
      = Some (Inr [a_part 1 10, a_part 2 20, a_part 3 30])"
    by (simp only: gap_sorted option.map fst_conv)
  have n: "4 \<notin> PartNumber ` set [a_part 3 30, a_part 1 10, a_part 5 50, a_part 2 20]"
    by (simp add: a_part_def)
  from c d p r n show ?thesis
    by (simp add: list_all_iff)
qed

subsection \<open>Reading the metadata\<close>

text \<open>
  C7. When the cache holds an entry for the id whose \<open>file\<close> is populated,
  \<open>_getMetadata\<close> returns that entry and sends nothing. Otherwise it reads the sidecar
  object \<open>{id}.info\<close>, parses the \<open>file\<close> field of its user metadata, takes the
  upload id from the key \<open>upload_id\<close> and, when that key is absent (or holds the empty
  string, which \<open>||\<close> treats alike), from the key \<open>upload-id\<close>, stores the record in
  the cache and returns it. In particular, when only \<open>upload-id\<close> is present the
  returned \<open>upload_id\<close> is populated.
\<close>

theorem getMetadata_cache_or_sidecar:
  "(cache st file_id = Some entry \<and> file' entry \<noteq> None
      \<longrightarrow> getMetadata env file_id st = (Inr entry, st))
 \<and> ((\<forall>entry. cache st file_id = Some entry \<longrightarrow> file' entry = None)
      \<and> s3_headObject (client env) (bucket_name env) (file_id @ ''.info'') (s3 st) = (Inr md, w)
      \<and> map_of md ''file'' = Some js \<and> JSON_parse env js = Inr f
      \<longrightarrow> (let uid = (case map_of md ''upload_id'' of
                         None \<Rightarrow> map_of md ''upload-id''
                       | Some u \<Rightarrow> if u = [] then map_of md ''upload-id'' else Some u);
               entry1 = \<lparr>Metadata = md, file' = f, upload_id = uid\<rparr>
           in getMetadata env file_id st =
                (Inr entry1,
                 st\<lparr>s3 := w,
                    trace := trace st @ [HeadObject (bucket_name env) (file_id @ ''.info'')],
                    cache := (cache st)(file_id \<mapsto> entry1)\<rparr>)
              \<and> (map_of md ''upload_id'' = None \<and> map_of md ''upload-id'' \<noteq> None
                    \<longrightarrow> upload_id entry1 = map_of md ''upload-id'' \<and> upload_id entry1 \<noteq> None)))"
proof (intro conjI impI)
  assume "cache st file_id = Some entry \<and> file' entry \<noteq> None"
  then show "getMetadata env file_id st = (Inr entry, st)"
    by (simp add: getMetadata_hit)
next
  assume a: "(\<forall>entry. cache st file_id = Some entry \<longrightarrow> file' entry = None)
      \<and> s3_headObject (client env) (bucket_name env) (file_id @ ''.info'') (s3 st) = (Inr md, w)
      \<and> map_of md ''file'' = Some js \<and> JSON_parse env js = Inr f"
  then have "getMetadata env file_id st = metadata_from_s3 env file_id st"
    by (simp add: getMetadata_miss)
  with a show "let uid = (case map_of md ''upload_id'' of
                         None \<Rightarrow> map_of md ''upload-id''
                       | Some u \<Rightarrow> if u = [] then map_of md ''upload-id'' else Some u);
               entry1 = \<lparr>Metadata = md, file' = f, upload_id = uid\<rparr>
           in getMetadata env file_id st =
                (Inr entry1,
                 st\<lparr>s3 := w,
                    trace := trace st @ [HeadObject (bucket_name env) (file_id @ ''.info'')],
                    cache := (cache st)(file_id \<mapsto> entry1)\<rparr>)
              \<and> (map_of md ''upload_id'' = None \<and> map_of md ''upload-id'' \<noteq> None
                    \<longrightarrow> upload_id entry1 = map_of md ''upload-id'' \<and> upload_id entry1 \<noteq> None)"
    by (auto simp: metadata_from_s3_eq or_else_def Let_def split: option.splits)
qed

theorem getMetadata_cache_or_sidecar_witness:
  "getMetadata (scripted_env spaces_script) ''a'' start =
     (Inr spaces_entry,
      start\<lparr>trace := [HeadObject ''tus'' ''a.info''], cache := [''a'' \<mapsto> spaces_entry]\<rparr>)
 \<and> upload_id spaces_entry = Some ''mpu-7''
 \<and> getMetadata (scripted_env spaces_script) ''a'' (start\<lparr>cache := [''a'' \<mapsto> spaces_entry]\<rparr>) =
     (Inr spaces_entry, start\<lparr>cache := [''a'' \<mapsto> spaces_entry]\<rparr>)"
proof -
  let ?env = "scripted_env spaces_script"
  let ?md = "[(''file'', ''a''), (''upload-id'', ''mpu-7''), (''tus_version'', ''1.0.0'')]"
  have miss: "\<forall>entry. cache start ''a'' = Some entry \<longrightarrow> file' entry = None"
    by (simp add: start_def)
  have h: "s3_headObject (client ?env) (bucket_name ?env) (''a'' @ ''.info'') (s3 start)
      = (Inr ?md, 0)"
    by (simp add: scripted_env_def scripted_client_def spaces_script_def start_def)
  have f: "map_of ?md ''file'' = Some ''a''"
    by simp
  have j: "JSON_parse ?env ''a'' = Inr (Some (an_upload (Str ''100'')))"
    by (simp add: scripted_env_def spaces_script_def)
  have 1: "getMetadata ?env ''a'' start =
     (Inr spaces_entry,
      start\<lparr>trace := [HeadObject ''tus'' ''a.info''], cache := [''a'' \<mapsto> spaces_entry]\<rparr>)"
    using getMetadata_cache_or_sidecar
      [of start "''a''" _ ?env ?md 0 "''a''" "Some (an_upload (Str ''100''))", THEN conjunct2]
      miss h f j
    by (simp add: Let_def spaces_entry_def start_def scripted_env_def)
  have c: "cache (start\<lparr>cache := [''a'' \<mapsto> spaces_entry]\<rparr>) ''a'' = Some spaces_entry
      \<and> file' spaces_entry \<noteq> None"
    by (simp add: spaces_entry_def)
  have 2: "getMetadata ?env ''a'' (start\<lparr>cache := [''a'' \<mapsto> spaces_entry]\<rparr>) =
     (Inr spaces_entry, start\<lparr>cache := [''a'' \<mapsto> spaces_entry]\<rparr>)"
    using getMetadata_cache_or_sidecar
      [of "start\<lparr>cache := [''a'' \<mapsto> spaces_entry]\<rparr>" "''a''" spaces_entry ?env, THEN conjunct1]
      c by simp
  have 3: "upload_id spaces_entry = Some ''mpu-7''"
    by (simp add: spaces_entry_def)
  from 1 2 3 show ?thesis by simp
qed

subsection \<open>The offset\<close>

text \<open>
  C6. When the metadata cannot be read, \<open>getOffset\<close> fails with \<open>FILE_NOT_FOUND\<close>.
  When it can (and holds a file record), the outcome follows the retrieval of the parts:
  if it succeeds, the record returned has as its size the sum of the sizes of the parts
  (0 for no parts), the two declared lengths and the list of parts; if it fails with
  the code \<open>NoSuchUpload\<close>, the record has the declared upload length as its size,
  the two declared lengths and no parts; any other error of the retrieval is the error
  of \<open>getOffset\<close>.
\<close>

theorem getOffset_outcomes:
  "(getMetadata env file_id st = (Inl e0, st1)
      \<longrightarrow> getOffset env file_id st = Some (Inl FILE_NOT_FOUND, st1))
 \<and> (getMetadata env file_id st = (Inr metadata, st1) \<and> file' metadata = Some f
      \<longrightarrow> (retrieveParts env file_id None st1 = Some (Inr ps, st2)
             \<longrightarrow> getOffset env file_id st =
                   Some (Inr \<lparr>file_props = Some f,
                              size' = Num (sum_list (map Size ps)),
                              upload_length' = upload_length f,
                              upload_defer_length' = upload_defer_length f,
                              parts = Some ps\<rparr>, st2))
        \<and> (retrieveParts env file_id None st1 = Some (Inl e, st2)
             \<and> code e = Some ''NoSuchUpload''
             \<longrightarrow> getOffset env file_id st =
                   Some (Inr \<lparr>file_props = Some f,
                              size' = upload_length f,
                              upload_length' = upload_length f,
                              upload_defer_length' = upload_defer_length f,
                              parts = None\<rparr>, st2))
        \<and> (retrieveParts env file_id None st1 = Some (Inl e, st2)
             \<and> code e \<noteq> Some ''NoSuchUpload''
             \<longrightarrow> getOffset env file_id st = Some (Inl e, st2)))"
proof (intro conjI impI)
  assume "getMetadata env file_id st = (Inl e0, st1)"
  then show "getOffset env file_id st = Some (Inl FILE_NOT_FOUND, st1)"
    by (simp add: getOffset_def)
next
  assume m: "getMetadata env file_id st = (Inr metadata, st1) \<and> file' metadata = Some f"
    and r: "retrieveParts env file_id None st1 = Some (Inr ps, st2)"
  from m have "cache st1 file_id = Some metadata" by (auto dest: getMetadata_cache)
  with r have "cache st2 file_id = Some metadata" by (auto dest: retrieveParts_cache)
  with m r show "getOffset env file_id st =
                   Some (Inr \<lparr>file_props = Some f,
                              size' = Num (sum_list (map Size ps)),
                              upload_length' = upload_length f,
                              upload_defer_length' = upload_defer_length f,
                              parts = Some ps\<rparr>, st2)"
    by (simp add: getOffset_def foldl_Size)
next
  assume m: "getMetadata env file_id st = (Inr metadata, st1) \<and> file' metadata = Some f"
    and r: "retrieveParts env file_id None st1 = Some (Inl e, st2) \<and> code e = Some ''NoSuchUpload''"
  from m have "cache st1 file_id = Some metadata" by (auto dest: getMetadata_cache)
  with r have "cache st2 file_id = Some metadata" by (auto dest: retrieveParts_cache)
  with m r show "getOffset env file_id st =
                   Some (Inr \<lparr>file_props = Some f,
                              size' = upload_length f,
                              upload_length' = upload_length f,
                              upload_defer_length' = upload_defer_length f,
                              parts = None\<rparr>, st2)"
    by (simp add: getOffset_def)
next
  assume m: "getMetadata env file_id st = (Inr metadata, st1) \<and> file' metadata = Some f"
    and r: "retrieveParts env file_id None st1 = Some (Inl e, st2) \<and> code e \<noteq> Some ''NoSuchUpload''"
  then show "getOffset env file_id st = Some (Inl e, st2)"
    by (simp add: getOffset_def)
qed

theorem getOffset_outcomes_witness:
  "map_option fst (getOffset (scripted_env offsets_script) ''a'' start) = Some (Inl FILE_NOT_FOUND)
 \<and> map_option fst (getOffset (scripted_env offsets_script) ''a'' (cached_start (Str ''100''))) =
     Some (Inr \<lparr>file_props = Some (an_upload (Str ''100'')), size' = Num 30,
                upload_length' = Str ''100'', upload_defer_length' = Undefined,
                parts = Some [a_part 1 10, a_part 2 20]\<rparr>)
 \<and> map_option fst
       (getOffset (scripted_env offsets_script) ''a'' (cached_start (Str ''100'')\<lparr>s3 := 1\<rparr>)) =
     Some (Inr \<lparr>file_props = Some (an_upload (Str ''100'')), size' = Str ''100'',
                upload_length' = Str ''100'', upload_defer_length' = Undefined,
                parts = None\<rparr>)
 \<and> map_option fst
       (getOffset (scripted_env offsets_script) ''a'' (cached_start (Str ''100'')\<lparr>s3 := 2\<rparr>)) =
     Some (Inl (ServiceError (Some ''InternalError'') (Some 500)))"
proof -
  let ?env = "scripted_env offsets_script"
  let ?st = "cached_start (Str ''100'')"
  have fl: "file' (a_session (Str ''100'')) = Some (an_upload (Str ''100''))"
    by (simp add: a_session_def)
  have g0: "getMetadata ?env ''a'' start
      = (Inl (ServiceError (Some ''NotFound'') (Some 404)),
         start\<lparr>s3 := s3 start, trace := trace start @ [HeadObject ''tus'' (''a'' @ ''.info'')]\<rparr>)"
    by (simp add: getMetadata_def metadata_from_s3_def scripted_headObject scripted_bucket_name
        start_def offsets_script_def)
  have a: "map_option fst (getOffset ?env ''a'' start) = Some (Inl FILE_NOT_FOUND)"
    using getOffset_outcomes[THEN conjunct1, THEN mp, OF g0] by simp
  have g1: "getMetadata ?env ''a'' ?st = (Inr (a_session (Str ''100'')), ?st)"
    by (rule cached_start_hit) (simp add: cached_start_def)
  have r1: "retrieveParts ?env ''a'' None ?st
      = Some (Inr [a_part 1 10, a_part 2 20],
              ?st\<lparr>s3 := Suc (s3 ?st),
                   trace := trace ?st @ [ListParts ''tus'' ''a'' (Some ''mpu'') None]\<rparr>)"
    using retrieveParts_last_page[of ?st "''a''" "a_session (Str ''100'')" ?env
        "\<lparr>Parts = [a_part 1 10, a_part 2 20], NextPartNumberMarker = None\<rparr>"]
    by (simp add: scripted_listParts scripted_bucket_name cached_start_def start_def
        a_session_def offsets_script_def truthy_def sort_and_filter_12)
  have b: "map_option fst (getOffset ?env ''a'' ?st) =
     Some (Inr \<lparr>file_props = Some (an_upload (Str ''100'')), size' = Num 30,
                upload_length' = Str ''100'', upload_defer_length' = Undefined,
                parts = Some [a_part 1 10, a_part 2 20]\<rparr>)"
    using getOffset_outcomes[THEN conjunct2, THEN mp, OF conjI[OF g1 fl],
        THEN conjunct1, THEN mp, OF r1]
    by (simp add: an_upload_def a_part_def)
  have g2: "getMetadata ?env ''a'' (?st\<lparr>s3 := 1\<rparr>) = (Inr (a_session (Str ''100'')), ?st\<lparr>s3 := 1\<rparr>)"
    by (rule cached_start_hit) (simp add: cached_start_def)
  have r2: "retrieveParts ?env ''a'' None (?st\<lparr>s3 := 1\<rparr>)
      = Some (Inl (ServiceError (Some ''NoSuchUpload'') (Some 404)),
              ?st\<lparr>s3 := 2, trace := trace ?st @ [ListParts ''tus'' ''a'' (Some ''mpu'') None]\<rparr>)
      \<and> code (ServiceError (Some ''NoSuchUpload'') (Some 404)) = Some ''NoSuchUpload''"
    using retrieveParts_error[of "?st\<lparr>s3 := 1\<rparr>" "''a''" "a_session (Str ''100'')" ?env None]
    by (simp add: scripted_listParts scripted_bucket_name cached_start_def start_def
        a_session_def offsets_script_def truthy_def)
  have c: "map_option fst (getOffset ?env ''a'' (?st\<lparr>s3 := 1\<rparr>)) =
     Some (Inr \<lparr>file_props = Some (an_upload (Str ''100'')), size' = Str ''100'',
                upload_length' = Str ''100'', upload_defer_length' = Undefined,
                parts = None\<rparr>)"
    using getOffset_outcomes[THEN conjunct2, THEN mp, OF conjI[OF g2 fl],
        THEN conjunct2, THEN conjunct1, THEN mp, OF r2]
    by (simp add: an_upload_def)
  have g3: "getMetadata ?env ''a'' (?st\<lparr>s3 := 2\<rparr>) = (Inr (a_session (Str ''100'')), ?st\<lparr>s3 := 2\<rparr>)"
    by (rule cached_start_hit) (simp add: cached_start_def)
  have r3: "retrieveParts ?env ''a'' None (?st\<lparr>s3 := 2\<rparr>)
      = Some (Inl (ServiceError (Some ''InternalError'') (Some 500)),
              ?st\<lparr>s3 := 3, trace := trace ?st @ [ListParts ''tus'' ''a'' (Some ''mpu'') None]\<rparr>)
      \<and> code (ServiceError (Some ''InternalError'') (Some 500)) \<noteq> Some ''NoSuchUpload''"
    using retrieveParts_error[of "?st\<lparr>s3 := 2\<rparr>" "''a''" "a_session (Str ''100'')" ?env None]
    by (simp add: scripted_listParts scripted_bucket_name cached_start_def start_def
        a_session_def offsets_script_def truthy_def)
  have d: "map_option fst (getOffset ?env ''a'' (?st\<lparr>s3 := 2\<rparr>)) =
     Some (Inl (ServiceError (Some ''InternalError'') (Some 500)))"
    using getOffset_outcomes[THEN conjunct2, THEN mp, OF conjI[OF g3 fl],
        THEN conjunct2, THEN conjunct2, THEN mp, OF r3]
    by simp
  from a b c d show ?thesis by simp
qed

subsection \<open>Creating an upload\<close>

text \<open>
  C5. \<open>create\<close> checks the bucket, creates the multipart upload and saves the sidecar
  object. When the three steps succeed it returns the upload it was given, unchanged,
  and leaves the cache as it was. When a step fails, \<open>create\<close> removes the cache entry
  of the upload's id and fails with the error of that step (for the bucket check that
  is the error which \<open>_bucketExists\<close> makes of the response).
\<close>

theorem create_outcomes:
  "(bucketExists env st = (Inl e, st1)
      \<longrightarrow> create env f st = (Inl e, clearCache (id' f) st1))
 \<and> (bucketExists env st = (Inr d, st1)
      \<longrightarrow> (call_createMultipartUpload env (bucket_name env) (id' f)
               (upload_data_Metadata env f) (upload_data_ContentType env f) st1 = (Inl e, st2)
             \<longrightarrow> create env f st = (Inl e, clearCache (id' f) st2))
        \<and> (call_createMultipartUpload env (bucket_name env) (id' f)
               (upload_data_Metadata env f) (upload_data_ContentType env f) st1 = (Inr uid, st2)
             \<longrightarrow> (saveMetadata env f (Some uid) st2 = (Inl e, st3)
                    \<longrightarrow> create env f st = (Inl e, clearCache (id' f) st3))
               \<and> (saveMetadata env f (Some uid) st2 = (Inr r, st3)
                    \<longrightarrow> create env f st = (Inr f, st3) \<and> cache st3 = cache st)))"
proof (intro conjI impI)
  assume "bucketExists env st = (Inl e, st1)"
  then show "create env f st = (Inl e, clearCache (id' f) st1)"
    by (simp add: create_def)
next
  assume "bucketExists env st = (Inr d, st1)"
    and "call_createMultipartUpload env (bucket_name env) (id' f)
               (upload_data_Metadata env f) (upload_data_ContentType env f) st1 = (Inl e, st2)"
  then show "create env f st = (Inl e, clearCache (id' f) st2)"
    by (simp add: create_def initMultipartUpload_def)
next
  assume "bucketExists env st = (Inr d, st1)"
    and "call_createMultipartUpload env (bucket_name env) (id' f)
               (upload_data_Metadata env f) (upload_data_ContentType env f) st1 = (Inr uid, st2)"
    and "saveMetadata env f (Some uid) st2 = (Inl e, st3)"
  then show "create env f st = (Inl e, clearCache (id' f) st3)"
    by (simp add: create_def initMultipartUpload_def)
next
  assume b: "bucketExists env st = (Inr d, st1)"
    and c: "call_createMultipartUpload env (bucket_name env) (id' f)
               (upload_data_Metadata env f) (upload_data_ContentType env f) st1 = (Inr uid, st2)"
    and s: "saveMetadata env f (Some uid) st2 = (Inr r, st3)"
  then show "create env f st = (Inr f, st3)"
    by (simp add: create_def initMultipartUpload_def)
  from b c s show "cache st3 = cache st"
    using bucketExists_cache call_createMultipartUpload_cache saveMetadata_cache by metis
qed

theorem create_outcomes_witness:
  "fst (create (scripted_env (spaces_script\<lparr>on_headBucket := Inl (ServiceError (Some ''Forbidden'') (Some 403))\<rparr>))
         (an_upload (Str ''100'')) (cached_start (Str ''100'')))
     = Inl (ErrorOf (ServiceError (Some ''Forbidden'') (Some 403)))
 \<and> cache (snd (create (scripted_env (spaces_script\<lparr>on_headBucket := Inl (ServiceError (Some ''Forbidden'') (Some 403))\<rparr>))
         (an_upload (Str ''100'')) (cached_start (Str ''100'')))) ''a'' = None
 \<and> fst (create (scripted_env (spaces_script\<lparr>on_createMultipartUpload := Inl (ServiceError (Some ''AccessDenied'') (Some 403))\<rparr>))
         (an_upload (Str ''100'')) (cached_start (Str ''100'')))
     = Inl (ServiceError (Some ''AccessDenied'') (Some 403))
 \<and> cache (snd (create (scripted_env (spaces_script\<lparr>on_createMultipartUpload := Inl (ServiceError (Some ''AccessDenied'') (Some 403))\<rparr>))
         (an_upload (Str ''100'')) (cached_start (Str ''100'')))) ''a'' = None
 \<and> fst (create (scripted_env (spaces_script\<lparr>on_putObject := Inl (ServiceError (Some ''SlowDown'') (Some 503))\<rparr>))
         (an_upload (Str ''100'')) (cached_start (Str ''100'')))
     = Inl (ServiceError (Some ''SlowDown'') (Some 503))
 \<and> cache (snd (create (scripted_env (spaces_script\<lparr>on_putObject := Inl (ServiceError (Some ''SlowDown'') (Some 503))\<rparr>))
         (an_upload (Str ''100'')) (cached_start (Str ''100'')))) ''a'' = None
 \<and> fst (create (scripted_env spaces_script) (an_upload (Str ''100'')) (cached_start (Str ''100'')))
     = Inr (an_upload (Str ''100''))
 \<and> cache (snd (create (scripted_env spaces_script) (an_upload (Str ''100''))
         (cached_start (Str ''100'')))) ''a'' = Some (a_session (Str ''100''))"
proof -
  let ?f = "an_upload (Str ''100'')"
  let ?S = "cached_start (Str ''100'')"
  let ?S1 = "?S\<lparr>s3 := s3 ?S, trace := trace ?S @ [HeadBucket ''tus'']\<rparr>"
  have idf: "id' ?f = ''a''" by (simp add: an_upload_def)
  have cS: "cache ?S ''a'' = Some (a_session (Str ''100''))"
    by (simp add: cached_start_def)
  \<comment> \<open>the bucket check fails\<close>
  let ?e1 = "scripted_env (spaces_script\<lparr>on_headBucket := Inl (ServiceError (Some ''Forbidden'') (Some 403))\<rparr>)"
  have b1: "bucketExists ?e1 ?S = (Inl (ErrorOf (ServiceError (Some ''Forbidden'') (Some 403))), ?S1)"
    by (simp add: bucketExists_def scripted_headBucket scripted_bucket_name)
  have r1: "create ?e1 ?f ?S
      = (Inl (ErrorOf (ServiceError (Some ''Forbidden'') (Some 403))), clearCache (id' ?f) ?S1)"
    by (rule create_outcomes[THEN conjunct1, THEN mp, OF b1])
  \<comment> \<open>the multipart upload is not created\<close>
  let ?e2 = "scripted_env (spaces_script\<lparr>on_createMultipartUpload := Inl (ServiceError (Some ''AccessDenied'') (Some 403))\<rparr>)"
  let ?S2 = "\<lambda>env. ?S1\<lparr>s3 := s3 ?S1, trace := trace ?S1 @
      [CreateMultipartUpload ''tus'' (id' ?f) (upload_data_Metadata env ?f)
         (upload_data_ContentType env ?f)]\<rparr>"
  have b2: "bucketExists ?e2 ?S = (Inr True, ?S1)"
    by (simp add: bucketExists_def scripted_headBucket scripted_bucket_name spaces_script_def)
  have c2: "call_createMultipartUpload ?e2 (bucket_name ?e2) (id' ?f)
      (upload_data_Metadata ?e2 ?f) (upload_data_ContentType ?e2 ?f) ?S1
      = (Inl (ServiceError (Some ''AccessDenied'') (Some 403)), ?S2 ?e2)"
    by (simp add: scripted_createMultipartUpload scripted_bucket_name)
  have r2: "create ?e2 ?f ?S
      = (Inl (ServiceError (Some ''AccessDenied'') (Some 403)), clearCache (id' ?f) (?S2 ?e2))"
    by (rule create_outcomes[THEN conjunct2, THEN mp, OF b2, THEN conjunct1, THEN mp, OF c2])
  \<comment> \<open>the sidecar object is not saved\<close>
  let ?e3 = "scripted_env (spaces_script\<lparr>on_putObject := Inl (ServiceError (Some ''SlowDown'') (Some 503))\<rparr>)"
  have b3: "bucketExists ?e3 ?S = (Inr True, ?S1)"
    by (simp add: bucketExists_def scripted_headBucket scripted_bucket_name spaces_script_def)
  have c3: "call_createMultipartUpload ?e3 (bucket_name ?e3) (id' ?f)
      (upload_data_Metadata ?e3 ?f) (upload_data_ContentType ?e3 ?f) ?S1
      = (Inr ''mpu'', ?S2 ?e3)"
    by (simp add: scripted_createMultipartUpload scripted_bucket_name spaces_script_def)
  obtain S3 where s3: "saveMetadata ?e3 ?f (Some ''mpu'') (?S2 ?e3)
      = (Inl (ServiceError (Some ''SlowDown'') (Some 503)), S3)"
    by (simp add: saveMetadata_def scripted_putObject)
  have r3: "create ?e3 ?f ?S
      = (Inl (ServiceError (Some ''SlowDown'') (Some 503)), clearCache (id' ?f) S3)"
    by (rule create_outcomes[THEN conjunct2, THEN mp, OF b3, THEN conjunct2, THEN mp, OF c3,
          THEN conjunct1, THEN mp, OF s3])
  \<comment> \<open>all three steps succeed\<close>
  let ?e4 = "scripted_env spaces_script"
  have b4: "bucketExists ?e4 ?S = (Inr True, ?S1)"
    by (simp add: bucketExists_def scripted_headBucket scripted_bucket_name spaces_script_def)
  have c4: "call_createMultipartUpload ?e4 (bucket_name ?e4) (id' ?f)
      (upload_data_Metadata ?e4 ?f) (upload_data_ContentType ?e4 ?f) ?S1
      = (Inr ''mpu'', ?S2 ?e4)"
    by (simp add: scripted_createMultipartUpload scripted_bucket_name spaces_script_def)
  obtain S4 where s4: "saveMetadata ?e4 ?f (Some ''mpu'') (?S2 ?e4)
      = (Inr (?f, Some ''mpu''), S4)"
    by (simp add: saveMetadata_def scripted_putObject spaces_script_def)
  have r4: "create ?e4 ?f ?S = (Inr ?f, S4) \<and> cache S4 = cache ?S"
    by (rule create_outcomes[THEN conjunct2, THEN mp, OF b4, THEN conjunct2, THEN mp, OF c4,
          THEN conjunct2, THEN mp, OF s4])
  from r1 r2 r3 r4 cS show ?thesis
    by (simp add: clearCache_def idf)
qed

subsection \<open>Declaring the length\<close>

text \<open>What \<open>declareUploadLength\<close> does: an error of \<open>_getMetadata\<close> is passed on as it
  is; a missing file record is \<open>FILE_NOT_FOUND\<close>; otherwise the length is set, the
  deferred length is cleared (in the cache entry as well) and the file is saved under
  the upload id of the entry.\<close>

lemma declareUploadLength_propagates:
  "getMetadata env file_id st = (Inl e, st1)
   \<Longrightarrow> declareUploadLength env file_id len st = (Inl e, st1)"
  by (simp add: declareUploadLength_def)

lemma declareUploadLength_no_file:
  "getMetadata env file_id st = (Inr metadata, st1) \<Longrightarrow> file' metadata = None
   \<Longrightarrow> declareUploadLength env file_id len st = (Inl FILE_NOT_FOUND, st1)"
  by (simp add: declareUploadLength_def)

lemma declareUploadLength_saves:
  assumes "getMetadata env file_id st = (Inr metadata, st1)" and "file' metadata = Some f"
  shows "\<exists>st2. declareUploadLength env file_id len st = (Inr (), st2)
     \<and> cache st2 file_id =
         Some (metadata\<lparr>file' := Some (f\<lparr>upload_length := len, upload_defer_length := Undefined\<rparr>)\<rparr>)
     \<and> trace st2 = trace st1 @
         [PutObject (bucket_name env) (id' f @ ''.info'') []
            [(''file'', Str (JSON_stringify env
                               (f\<lparr>upload_length := len, upload_defer_length := Undefined\<rparr>))),
             (''upload_id'', jsval_of (upload_id metadata)),
             (''tus_version'', Str (TUS_RESUMABLE env))]]"
  using assms
  by (simp add: declareUploadLength_def Let_def saveMetadata_def call_putObject_def sent_def
      split: prod.splits sum.splits)

text \<open>
  C8. The claim is that \<open>declareUploadLength\<close> fails with \<open>FILE_NOT_FOUND\<close> when the
  sidecar object is missing. With no sidecar object and nothing in the cache,
  \<open>headObject\<close> fails, and \<open>declareUploadLength\<close> fails with the error of
  \<open>headObject\<close>, while \<open>getOffset\<close> on the same store fails with \<open>FILE_NOT_FOUND\<close>.
\<close>

theorem declareUploadLength_missing_sidecar:
  "fst (declareUploadLength (scripted_env offsets_script) ''a'' (Str ''100'') start)
     = Inl (ServiceError (Some ''NotFound'') (Some 404))
 \<and> map_option fst (getOffset (scripted_env offsets_script) ''a'' start)
     = Some (Inl FILE_NOT_FOUND)"
proof -
  have g0: "getMetadata (scripted_env offsets_script) ''a'' start
      = (Inl (ServiceError (Some ''NotFound'') (Some 404)),
         start\<lparr>s3 := s3 start, trace := trace start @ [HeadObject ''tus'' (''a'' @ ''.info'')]\<rparr>)"
    by (simp add: getMetadata_def metadata_from_s3_def scripted_headObject scripted_bucket_name
        start_def offsets_script_def)
  then show ?thesis
    by (simp add: declareUploadLength_def getOffset_def)
qed

subsection \<open>The part coordinator\<close>

text \<open>
  C9. When the three operations that start \<open>write\<close> succeed, \<open>write\<close> runs the
  coordinator with the part number \<open>countParts(id) + 1\<close> and with the size of the
  initial offset as its cumulative size. The coordinator handles the chunk that
  finishes after the events \<open>evs1\<close> with the part number \<open>countParts(id) + 1\<close> plus the
  number of chunks finished before it: the first finished chunk gets
  \<open>countParts(id) + 1\<close>, each later one the next integer, in the order of the
  \<open>chunkFinished\<close> events.
\<close>

theorem part_numbers_consecutive:
  assumes "getMetadata env file_id st = (Inr metadata, st1)"
    and "countParts env file_id st1 = Some (Inr n, st2)"
    and "getOffset env file_id st2 = Some (Inr initial_offset, st3)"
    and "events rd = evs1 @ ChunkFinished path sz # evs2"
  shows "write' env rd file_id st =
           (case write_settle env file_id metadata
                   (processUpload env metadata rd (n + 1) (size' initial_offset) st3) of
              None \<Rightarrow> None
            | Some (Inl e, st4) \<Rightarrow> write_catch env file_id e st4
            | Some (Inr v, st4) \<Rightarrow> Some (Inr v, st4))
       \<and> processUpload env metadata rd (n + 1) (size' initial_offset) st3 =
           pipeline_done (pipelineErr rd)
             (run_events env metadata evs2
                (run_events env metadata (evs1 @ [ChunkFinished path sz])
                   (coordinator0 (n + 1) (size' initial_offset), st3)))
       \<and> run_events env metadata (evs1 @ [ChunkFinished path sz])
             (coordinator0 (n + 1) (size' initial_offset), st3) =
           (case run_events env metadata evs1 (coordinator0 (n + 1) (size' initial_offset), st3) of
              (co, s) \<Rightarrow>
                (co\<lparr>pendingChunkFilepath := None,
                    current_size := foldl js_add (size' initial_offset) (finished_sizes evs1 @ [sz]),
                    currentPartNumber := n + 1 + int (length (finished_sizes evs1)) + 1,
                    promises := promises co
                      @ [fst (chunk_promise env metadata path sz
                                (n + 1 + int (length (finished_sizes evs1)))
                                (foldl js_add (size' initial_offset) (finished_sizes evs1 @ [sz]))
                                s)]\<rparr>,
                 snd (chunk_promise env metadata path sz
                        (n + 1 + int (length (finished_sizes evs1)))
                        (foldl js_add (size' initial_offset) (finished_sizes evs1 @ [sz])) s)))"
proof (intro conjI)
  show "write' env rd file_id st =
           (case write_settle env file_id metadata
                   (processUpload env metadata rd (n + 1) (size' initial_offset) st3) of
              None \<Rightarrow> None
            | Some (Inl e, st4) \<Rightarrow> write_catch env file_id e st4
            | Some (Inr v, st4) \<Rightarrow> Some (Inr v, st4))"
    by (rule write_unfold[OF assms(1-3)])
qed (rule processUpload_split[OF assms(4)], rule run_events_chunk)

theorem part_numbers_consecutive_witness:
  "getMetadata (simulated_env three_sizes) ''a'' (a_state (Str ''20971520'') [] [])
     = (Inr (a_session (Str ''20971520'')), a_state (Str ''20971520'') [] [])
 \<and> countParts (simulated_env three_sizes) ''a'' (a_state (Str ''20971520'') [] [])
     = Some (Inr 0, a_state (Str ''20971520'') [] [ListParts ''tus'' ''a'' (Some ''mpu'') None])
 \<and> map_option (size' \<circ> projr \<circ> fst)
       (getOffset (simulated_env three_sizes) ''a''
          (a_state (Str ''20971520'') [] [ListParts ''tus'' ''a'' (Some ''mpu'') None]))
     = Some (Num 0)
 \<and> events three_chunks = three_prefix @ ChunkFinished ''c3'' 4194304 # []
 \<and> trace (snd (run_events (simulated_env three_sizes) (a_session (Str ''20971520''))
       (three_prefix @ [ChunkFinished ''c3'' 4194304])
       (coordinator0 (0 + 1) (Num 0),
        a_state (Str ''20971520'') []
          [ListParts ''tus'' ''a'' (Some ''mpu'') None,
           ListParts ''tus'' ''a'' (Some ''mpu'') None])))
     = [ListParts ''tus'' ''a'' (Some ''mpu'') None,
        ListParts ''tus'' ''a'' (Some ''mpu'') None,
        UploadPart ''tus'' ''a'' (Some ''mpu'') 1 ''c1'', FsRm ''c1'',
        UploadPart ''tus'' ''a'' (Some ''mpu'') 2 ''c2'', FsRm ''c2'',
        UploadPart ''tus'' ''a'' (Some ''mpu'') 3 ''c3'', FsRm ''c3'']"
proof -
  let ?env = "simulated_env three_sizes"
  let ?L = "Str ''20971520''"
  let ?l = "ListParts ''tus'' ''a'' (Some ''mpu'') None"
  let ?off = "\<lparr>file_props = Some (an_upload ?L), size' = Num 0, upload_length' = ?L,
      upload_defer_length' = Undefined, parts = Some []\<rparr>"
  have h1: "getMetadata ?env ''a'' (a_state ?L [] []) = (Inr (a_session ?L), a_state ?L [] [])"
    by (rule a_state_getMetadata)
  have h2: "countParts ?env ''a'' (a_state ?L [] []) = Some (Inr 0, a_state ?L [] [?l])"
    by (simp add: sim_countParts sort_and_filter_Nil)
  have h3: "getOffset ?env ''a'' (a_state ?L [] [?l]) = Some (Inr ?off, a_state ?L [] [?l, ?l])"
    by (simp add: sim_getOffset sort_and_filter_Nil)
  note t = part_numbers_consecutive[OF h1 h2 h3 three_chunks_split, THEN conjunct2, THEN conjunct2]
  have r: "trace (snd (run_events ?env (a_session ?L) (three_prefix @ [ChunkFinished ''c3'' 4194304])
       (coordinator0 (0 + 1) (Num 0), a_state ?L [] [?l, ?l])))
     = [?l, ?l, UploadPart ''tus'' ''a'' (Some ''mpu'') 1 ''c1'', FsRm ''c1'',
        UploadPart ''tus'' ''a'' (Some ''mpu'') 2 ''c2'', FsRm ''c2'',
        UploadPart ''tus'' ''a'' (Some ''mpu'') 3 ''c3'', FsRm ''c3'']"
    using t
    by (simp add: three_prefix_run finished_three_prefix sim_chunk_promise is_last_chunk_def
        parseInt_20MiB)
  have o: "map_option (size' \<circ> projr \<circ> fst) (getOffset ?env ''a'' (a_state ?L [] [?l])) = Some (Num 0)"
    by (simp add: h3)
  from h1 h2 o three_chunks_split r show ?thesis
    by (intro conjI)
qed

text \<open>
  C2. For every finished chunk of a run of the coordinator: the cumulative size is the
  initial size plus the sizes of the chunks finished so far, this one included. If the
  chunk is not final (the cumulative size is not the upload length) and is smaller than
  5 MiB, nothing is sent to the object store and the chunk file is removed. Otherwise
  (the chunk is final, or has 5 MiB or more) the chunk is uploaded as the part with the
  coordinator's current part number, and the chunk file is removed after the upload has
  settled. In particular a final chunk smaller than 5 MiB is uploaded.
\<close>

theorem small_tail_policy:
  assumes "file' metadata = Some f"
    and "events rd = evs1 @ ChunkFinished path sz # evs2"
    and "run_events env metadata evs1 (coordinator0 n1 s0, st) = (co, st1)"
    and "run_events env metadata (evs1 @ [ChunkFinished path sz]) (coordinator0 n1 s0, st) = (co2, st2)"
  shows "processUpload env metadata rd n1 s0 st =
           pipeline_done (pipelineErr rd) (run_events env metadata evs2 (co2, st2))
       \<and> current_size co2 = foldl js_add s0 (finished_sizes evs1 @ [sz])
       \<and> (\<not> is_last_chunk f (current_size co2) \<and> sz < 5 * 1024 * 1024
            \<longrightarrow> trace st2 = trace st1 @ [FsRm path] \<and> s3 st2 = s3 st1
              \<and> promises co2 = promises co @ [Inr None])
       \<and> (is_last_chunk f (current_size co2) \<or> 5 * 1024 * 1024 \<le> sz
            \<longrightarrow> trace st2 = trace st1
                   @ [UploadPart (bucket_name env) (id' f) (upload_id metadata)
                        (currentPartNumber co) path,
                      FsRm path]
              \<and> promises co2 = promises co
                   @ [map_sum id Some
                        (fst (call_uploadPart env (bucket_name env) (id' f) (upload_id metadata)
                                (currentPartNumber co) path st1))])"
proof -
  have c: "currentPartNumber co = n1 + int (length (finished_sizes evs1))"
    using run_events_counters[of env metadata evs1 "(coordinator0 n1 s0, st)"] assms(3)
    by (simp add: coordinator0_def)
  let ?cur = "foldl js_add s0 (finished_sizes evs1 @ [sz])"
  let ?p = "chunk_promise env metadata path sz (currentPartNumber co) ?cur st1"
  from run_events_chunk[of env metadata evs1 path sz n1 s0 st] assms(3,4) c
  have co2: "co2 = co\<lparr>pendingChunkFilepath := None, current_size := ?cur,
                currentPartNumber := currentPartNumber co + 1,
                promises := promises co @ [fst ?p]\<rparr>"
    and st2: "st2 = snd ?p"
    by simp_all
  have 1: "processUpload env metadata rd n1 s0 st =
           pipeline_done (pipelineErr rd) (run_events env metadata evs2 (co2, st2))"
    using processUpload_split[OF assms(2), of env metadata n1 s0 st] by (simp only: assms(4))
  have 2: "current_size co2 = ?cur"
    using co2 by simp
  have 3: "\<not> is_last_chunk f (current_size co2) \<and> sz < 5 * 1024 * 1024
            \<longrightarrow> trace st2 = trace st1 @ [FsRm path] \<and> s3 st2 = s3 st1
              \<and> promises co2 = promises co @ [Inr None]"
    using co2 st2 chunk_promise_skip[OF assms(1), of ?cur sz env path "currentPartNumber co" st1]
    by (simp add: fs_rm_def)
  have 4: "is_last_chunk f (current_size co2) \<or> 5 * 1024 * 1024 \<le> sz
            \<longrightarrow> trace st2 = trace st1
                   @ [UploadPart (bucket_name env) (id' f) (upload_id metadata)
                        (currentPartNumber co) path,
                      FsRm path]
              \<and> promises co2 = promises co
                   @ [map_sum id Some
                        (fst (call_uploadPart env (bucket_name env) (id' f) (upload_id metadata)
                                (currentPartNumber co) path st1))]"
    using co2 st2 chunk_promise_upload[OF assms(1), of ?cur sz env path "currentPartNumber co" st1]
    by (auto simp: fs_rm_def call_uploadPart_trace)
  from 1 2 3 4 show ?thesis by blast
qed

theorem small_tail_policy_witness:
  "is_last_chunk (an_upload (Str ''20971520'')) (Num 20971520)
 \<and> trace (snd (run_events (simulated_env three_sizes) (a_session (Str ''20971520''))
       (three_prefix @ [ChunkFinished ''c3'' 4194304])
       (coordinator0 1 (Num 0), a_state (Str ''20971520'') [] [])))
     = trace (snd (run_events (simulated_env three_sizes) (a_session (Str ''20971520''))
         three_prefix (coordinator0 1 (Num 0), a_state (Str ''20971520'') [] [])))
       @ [UploadPart ''tus'' ''a'' (Some ''mpu'') 3 ''c3'', FsRm ''c3'']
 \<and> \<not> is_last_chunk (an_upload (Str ''31457280'')) (Num 20971520)
 \<and> (4194304 :: int) < 5 * 1024 * 1024
 \<and> trace (snd (run_events (simulated_env three_sizes) (a_session (Str ''31457280''))
       (three_prefix @ [ChunkFinished ''c3'' 4194304])
       (coordinator0 1 (Num 0), a_state (Str ''31457280'') [] [])))
     = trace (snd (run_events (simulated_env three_sizes) (a_session (Str ''31457280''))
         three_prefix (coordinator0 1 (Num 0), a_state (Str ''31457280'') [] [])))
       @ [FsRm ''c3'']"
proof -
  let ?env = "simulated_env three_sizes"
  let ?A = "Str ''20971520''" and ?B = "Str ''31457280''"
  have la: "is_last_chunk (an_upload ?A) (Num 20971520)"
    by (simp add: is_last_chunk_def parseInt_20MiB)
  have lb: "\<not> is_last_chunk (an_upload ?B) (Num 20971520)"
    by (simp add: is_last_chunk_def parseInt_30MiB)
  have sz: "(4194304 :: int) < 5 * 1024 * 1024" by simp
  obtain coA stA where pA: "run_events ?env (a_session ?A) three_prefix
      (coordinator0 1 (Num 0), a_state ?A [] []) = (coA, stA)"
    by (simp add: three_prefix_run)
  obtain coA2 stA2 where rA: "run_events ?env (a_session ?A)
      (three_prefix @ [ChunkFinished ''c3'' 4194304])
      (coordinator0 1 (Num 0), a_state ?A [] []) = (coA2, stA2)"
    and cA: "current_size coA2 = Num 20971520"
    by (simp add: three_all_run la)
  have nA: "currentPartNumber coA = 3"
    using pA by (auto simp: three_prefix_run)
  note tA = small_tail_policy[OF a_session_sel(1) three_chunks_split pA rA,
      THEN conjunct2, THEN conjunct2, THEN conjunct2, THEN mp, THEN conjunct1]
  have A: "trace stA2 = trace stA @ [UploadPart ''tus'' ''a'' (Some ''mpu'') 3 ''c3'', FsRm ''c3'']"
    using tA la cA nA by (simp add: simulated_bucket_name)
  obtain coB stB where pB: "run_events ?env (a_session ?B) three_prefix
      (coordinator0 1 (Num 0), a_state ?B [] []) = (coB, stB)"
    by (simp add: three_prefix_run)
  obtain coB2 stB2 where rB: "run_events ?env (a_session ?B)
      (three_prefix @ [ChunkFinished ''c3'' 4194304])
      (coordinator0 1 (Num 0), a_state ?B [] []) = (coB2, stB2)"
    and cB: "current_size coB2 = Num 20971520"
    by (simp add: three_all_run lb)
  note tB = small_tail_policy[OF a_session_sel(1) three_chunks_split pB rB,
      THEN conjunct2, THEN conjunct2, THEN conjunct1, THEN mp, THEN conjunct1]
  have B: "trace stB2 = trace stB @ [FsRm ''c3'']"
    using tB lb cB by simp
  from la lb sz A B pA rA pB rB show ?thesis by simp
qed

text \<open>
  C10. When the upload length is undefined, the test for the final chunk holds for no
  cumulative size. So, whatever the events before it and whatever the size the
  coordinator started from, a finished chunk smaller than 5 MiB is discarded: its
  promise resolves with nothing, nothing is sent to the object store, and only the
  chunk file is removed.
\<close>

theorem deferred_length_discards_small_chunks:
  assumes "file' metadata = Some f" and "upload_length f = Undefined"
    and "events rd = evs1 @ ChunkFinished path sz # evs2" and "sz < 5 * 1024 * 1024"
    and "run_events env metadata evs1 (coordinator0 n1 s0, st) = (co, st1)"
  shows "(\<forall>cur. \<not> is_last_chunk f cur)
       \<and> run_events env metadata (evs1 @ [ChunkFinished path sz]) (coordinator0 n1 s0, st) =
           (co\<lparr>pendingChunkFilepath := None,
               current_size := js_add (current_size co) sz,
               currentPartNumber := currentPartNumber co + 1,
               promises := promises co @ [Inr None]\<rparr>,
            st1\<lparr>trace := trace st1 @ [FsRm path]\<rparr>)
       \<and> processUpload env metadata rd n1 s0 st =
           pipeline_done (pipelineErr rd)
             (run_events env metadata evs2
                (co\<lparr>pendingChunkFilepath := None,
                    current_size := js_add (current_size co) sz,
                    currentPartNumber := currentPartNumber co + 1,
                    promises := promises co @ [Inr None]\<rparr>,
                 st1\<lparr>trace := trace st1 @ [FsRm path]\<rparr>))"
proof -
  have n: "\<forall>cur. \<not> is_last_chunk f cur"
    using assms(2) by (simp add: undefined_never_last)
  have r: "run_events env metadata (evs1 @ [ChunkFinished path sz]) (coordinator0 n1 s0, st) =
           (co\<lparr>pendingChunkFilepath := None,
               current_size := js_add (current_size co) sz,
               currentPartNumber := currentPartNumber co + 1,
               promises := promises co @ [Inr None]\<rparr>,
            st1\<lparr>trace := trace st1 @ [FsRm path]\<rparr>)"
    using assms(1,4,5) n
    by (simp add: run_events_snoc Let_def chunk_promise_skip[OF assms(1)] fs_rm_def)
  from n r processUpload_split[OF assms(3), of env metadata n1 s0 st] show ?thesis
    by simp
qed

theorem deferred_length_discards_small_chunks_witness:
  "upload_length (an_upload Undefined) = Undefined
 \<and> (4194304 :: int) < 5 * 1024 * 1024
 \<and> run_events (simulated_env three_sizes) (a_session Undefined)
       (three_prefix @ [ChunkFinished ''c3'' 4194304])
       (coordinator0 1 (Num 0), a_state Undefined [] []) =
     (\<lparr>promises = [Inr (Some ''etag-c1''), Inr (Some ''etag-c2''), Inr None],
       pendingChunkFilepath = None,
       current_size = Num 20971520,
       currentPartNumber = 4\<rparr>,
      a_state Undefined
        [\<lparr>PartNumber = 1, Size = 8388608, ETag = ''etag-c1''\<rparr>,
         \<lparr>PartNumber = 2, Size = 8388608, ETag = ''etag-c2''\<rparr>]
        [UploadPart ''tus'' ''a'' (Some ''mpu'') 1 ''c1'', FsRm ''c1'',
         UploadPart ''tus'' ''a'' (Some ''mpu'') 2 ''c2'', FsRm ''c2'',
         FsRm ''c3''])"
proof -
  have u: "upload_length (an_upload Undefined) = Undefined" by simp
  have sz: "(4194304 :: int) < 5 * 1024 * 1024" by simp
  note t = deferred_length_discards_small_chunks
    [OF a_session_sel(1) u three_chunks_split sz three_prefix_run[of Undefined "[]"],
      THEN conjunct2, THEN conjunct1]
  from t u sz show ?thesis by simp
qed

subsection \<open>write\<close>

text \<open>
  The three operations that start \<open>write\<close> are outside the chain that \<open>catch\<close>
  guards: an error of one of them is the error of \<open>write\<close>, whatever its code, and the
  cache stays as these operations left it. So a write to an upload that has been
  completed, where \<open>listParts\<close> answers \<open>NoSuchUpload\<close>, fails with that error.
\<close>

lemma write_initial_metadata_error:
  "getMetadata env file_id st = (Inl e, st1) \<Longrightarrow> write' env rd file_id st = Some (Inl e, st1)"
  by (simp add: write'_def)

lemma write_initial_countParts_error:
  "getMetadata env file_id st = (Inr metadata, st1)
   \<Longrightarrow> countParts env file_id st1 = Some (Inl e, st2)
   \<Longrightarrow> getOffset env file_id st2 = Some (r, st3)
   \<Longrightarrow> write' env rd file_id st = Some (Inl e, st3)"
  by (simp add: write'_def)

lemma write_initial_getOffset_error:
  "getMetadata env file_id st = (Inr metadata, st1)
   \<Longrightarrow> countParts env file_id st1 = Some (Inr n, st2)
   \<Longrightarrow> getOffset env file_id st2 = Some (Inl e, st3)
   \<Longrightarrow> write' env rd file_id st = Some (Inl e, st3)"
  by (simp add: write'_def)

lemma write_to_completed_upload:
  "write' (scripted_env (fading_script 0 []
              (ServiceError (Some ''NoSuchUpload'') (Some 404)) (Inr ''location'')))
      (no_chunks None) ''a'' (a_state (Str ''100'') 0 [])
     = Some (Inl (ServiceError (Some ''NoSuchUpload'') (Some 404)),
             a_state (Str ''100'') 2
               [ListParts ''tus'' ''a'' (Some ''mpu'') None,
                ListParts ''tus'' ''a'' (Some ''mpu'') None])"
  by (simp add: write'_def a_state_getMetadata fading_countParts fading_getOffset
      eval_nat_numeral)

text \<open>
  C3, as it holds. Let the three operations that start \<open>write\<close> succeed (the
  metadata with a file record), and let the part coordinator fail: \<open>Promise.all\<close>
  over its promises rejects, with the rejection that comes first in time. If the code
  of that error is \<open>RequestTimeout\<close> or \<open>NoSuchUpload\<close>, then \<open>write\<close> runs
  \<open>getOffset\<close> once more and settles as it does: it resolves with the size of that
  offset, or fails with the error of \<open>getOffset\<close>; the cache entry is the one read at
  the start, before and after. For any other error of the coordinator \<open>write\<close>
  removes the cache entry and fails with that error.
\<close>

theorem write_catch_outcomes:
  assumes "getMetadata env file_id st = (Inr metadata, st1)" and "file' metadata = Some f"
    and "countParts env file_id st1 = Some (Inr n, st2)"
    and "getOffset env file_id st2 = Some (Inr initial_offset, st3)"
    and "processUpload env metadata rd (n + 1) (size' initial_offset) st3 = (ps, st4)"
    and "Promise_all (timed env metadata ps) = Inl e"
  shows "(code e = Some ''RequestTimeout'' \<or> code e = Some ''NoSuchUpload''
           \<longrightarrow> write' env rd file_id st =
                 (case getOffset env file_id st4 of
                    None \<Rightarrow> None
                  | Some (Inl e1, st5) \<Rightarrow> Some (Inl e1, st5)
                  | Some (Inr current_offset, st5) \<Rightarrow> Some (Inr (size' current_offset), st5))
             \<and> cache st4 file_id = Some metadata
             \<and> (\<forall>r st5. getOffset env file_id st4 = Some (r, st5)
                   \<longrightarrow> cache st5 file_id = Some metadata))
       \<and> (code e \<noteq> Some ''RequestTimeout'' \<and> code e \<noteq> Some ''NoSuchUpload''
           \<longrightarrow> write' env rd file_id st = Some (Inl e, clearCache file_id st4)
             \<and> cache (clearCache file_id st4) file_id = None)"
proof -
  have c1: "cache st1 file_id = Some metadata"
    using assms(1) by (rule getMetadata_cache)
  have c2: "cache st2 = cache st1"
    using assms(3) by (rule countParts_cache)
  have c3: "cache st3 = cache st2"
    using getOffset_cache[OF _ assms(2) assms(4)] c1 c2 by simp
  have c4: "cache st4 = cache st3"
    using assms(5) by (rule processUpload_cache)
  have c: "cache st4 file_id = Some metadata"
    using c1 c2 c3 c4 by simp
  have w: "write' env rd file_id st = write_catch env file_id e st4"
    by (rule write_chain_error[OF assms(1,3,4) write_chain_coordinator_error[OF assms(5,6)]])
  have g: "\<forall>r st5. getOffset env file_id st4 = Some (r, st5) \<longrightarrow> cache st5 file_id = Some metadata"
    using getOffset_cache[OF c assms(2)] c by auto
  show ?thesis
    using w c g by (auto simp: write_catch_def graceful_iff clearCache_def)
qed

text \<open>
  Three runs. In the first two the body breaks with the code \<open>RequestTimeout\<close> after
  one chunk of 8 MiB, whose upload fails with an internal error. When the upload is
  still in flight as the body breaks (it settles at time 1), the coordinator fails with
  the error of the body: \<open>write\<close> resolves, with the offset 0, and the cache entry
  stays. When the upload has failed before the body breaks (time 0), the coordinator
  fails with the internal error: \<open>write\<close> fails with it and the cache entry is
  removed. In the third run the body breaks at once, with the code \<open>ECONNRESET\<close>.
\<close>

theorem write_catch_outcomes_witness:
  "map_option fst
     (write' (scripted_env (failing_script (ServiceError (Some ''InternalError'') (Some 500)) 1))
        (broken_body (ServiceError (Some ''RequestTimeout'') None)) ''a''
        (a_state (Str ''20971520'') 0 []))
     = Some (Inr (Num 0))
 \<and> map_option (\<lambda>r. cache (snd r) ''a'')
     (write' (scripted_env (failing_script (ServiceError (Some ''InternalError'') (Some 500)) 1))
        (broken_body (ServiceError (Some ''RequestTimeout'') None)) ''a''
        (a_state (Str ''20971520'') 0 []))
     = Some (Some (a_session (Str ''20971520'')))
 \<and> map_option fst
     (write' (scripted_env (failing_script (ServiceError (Some ''InternalError'') (Some 500)) 0))
        (broken_body (ServiceError (Some ''RequestTimeout'') None)) ''a''
        (a_state (Str ''20971520'') 0 []))
     = Some (Inl (ServiceError (Some ''InternalError'') (Some 500)))
 \<and> map_option (\<lambda>r. cache (snd r) ''a'')
     (write' (scripted_env (failing_script (ServiceError (Some ''InternalError'') (Some 500)) 0))
        (broken_body (ServiceError (Some ''RequestTimeout'') None)) ''a''
        (a_state (Str ''20971520'') 0 []))
     = Some None
 \<and> write' (scripted_env (fading_script 5 [a_part 1 10]
              (ServiceError (Some ''InternalError'') (Some 500)) (Inr ''location'')))
      (no_chunks (Some (ServiceError (Some ''ECONNRESET'') None))) ''a''
      (a_state (Str ''100'') 0 [])
     = Some (Inl (ServiceError (Some ''ECONNRESET'') None),
             clearCache ''a''
               (a_state (Str ''100'') 2
                  [ListParts ''tus'' ''a'' (Some ''mpu'') None,
                   ListParts ''tus'' ''a'' (Some ''mpu'') None]))"
proof -
  let ?l = "ListParts ''tus'' ''a'' (Some ''mpu'') None"
  let ?ie = "ServiceError (Some ''InternalError'') (Some 500)"
  let ?rt = "ServiceError (Some ''RequestTimeout'') None"
  let ?rs = "ServiceError (Some ''ECONNRESET'') None"
  \<comment> \<open>one chunk, then the body breaks\<close>
  let ?A = "Str ''20971520''"
  let ?ini = "\<lparr>file_props = Some (an_upload ?A), size' = Num 0, upload_length' = ?A,
      upload_defer_length' = Undefined, parts = Some []\<rparr>"
  let ?tr = "[?l, ?l, UploadPart ''tus'' ''a'' (Some ''mpu'') 1 ''c1'', FsRm ''c1'', FsRm ''c2'']"
  have a1: "getMetadata (scripted_env (failing_script ?ie t)) ''a'' (a_state ?A 0 [])
      = (Inr (a_session ?A), a_state ?A 0 [])" for t
    by (rule a_state_getMetadata)
  have a3: "countParts (scripted_env (failing_script ?ie t)) ''a'' (a_state ?A 0 [])
      = Some (Inr 0, a_state ?A 1 [?l])" for t
    by (simp add: failing_countParts)
  have a4: "getOffset (scripted_env (failing_script ?ie t)) ''a'' (a_state ?A 1 [?l])
      = Some (Inr ?ini, a_state ?A 2 [?l, ?l])" for t
    by (simp add: failing_getOffset eval_nat_numeral)
  have a5: "processUpload (scripted_env (failing_script ?ie t)) (a_session ?A) (broken_body ?rt)
      (0 + 1) (size' ?ini) (a_state ?A 2 [?l, ?l]) = ([Inl ?ie, Inl ?rt], a_state ?A 2 ?tr)" for t
    using failing_processUpload[of ?ie t ?rt 2 "[?l, ?l]"] by simp
  have late: "Promise_all (timed (scripted_env (failing_script ?ie 1)) (a_session ?A)
      [Inl ?ie, Inl ?rt]) = Inl ?rt"
    by (simp add: failing_timed Promise_all_def)
  have early: "Promise_all (timed (scripted_env (failing_script ?ie 0)) (a_session ?A)
      [Inl ?ie, Inl ?rt]) = Inl ?ie"
    by (simp add: failing_timed Promise_all_def)
  have a: "write' (scripted_env (failing_script ?ie 1)) (broken_body ?rt) ''a'' (a_state ?A 0 [])
      = Some (Inr (Num 0), a_state ?A 3 (?tr @ [?l]))"
    using write_catch_outcomes[OF a1 a_session_sel(1) a3 a4 a5 late, THEN conjunct1]
    by (simp add: failing_getOffset eval_nat_numeral)
  have b: "write' (scripted_env (failing_script ?ie 0)) (broken_body ?rt) ''a'' (a_state ?A 0 [])
      = Some (Inl ?ie, clearCache ''a'' (a_state ?A 2 ?tr))"
    using write_catch_outcomes[OF a1 a_session_sel(1) a3 a4 a5 early, THEN conjunct2]
    by simp
  \<comment> \<open>the body breaks at once\<close>
  let ?env = "scripted_env (fading_script 5 [a_part 1 10] ?ie (Inr ''location''))"
  let ?L = "Str ''100''"
  let ?off = "\<lparr>file_props = Some (an_upload ?L), size' = Num 10, upload_length' = ?L,
      upload_defer_length' = Undefined, parts = Some [a_part 1 10]\<rparr>"
  have h1: "getMetadata ?env ''a'' (a_state ?L 0 []) = (Inr (a_session ?L), a_state ?L 0 [])"
    by (rule a_state_getMetadata)
  have h3: "countParts ?env ''a'' (a_state ?L 0 []) = Some (Inr 1, a_state ?L 1 [?l])"
    by (simp add: fading_countParts sort_and_filter_single)
  have h4: "getOffset ?env ''a'' (a_state ?L 1 [?l]) = Some (Inr ?off, a_state ?L 2 [?l, ?l])"
    by (simp add: fading_getOffset sort_and_filter_single eval_nat_numeral)
  have h5: "processUpload ?env (a_session ?L) (no_chunks (Some ?rs)) (1 + 1) (size' ?off)
      (a_state ?L 2 [?l, ?l]) = ([Inl ?rs], a_state ?L 2 [?l, ?l])"
    by (simp add: no_chunks_processUpload)
  have h6: "Promise_all (timed ?env (a_session ?L) [Inl ?rs]) = Inl ?rs"
    by (simp add: timed_def Promise_all_def)
  have c: "write' ?env (no_chunks (Some ?rs)) ''a'' (a_state ?L 0 [])
      = Some (Inl ?rs, clearCache ''a'' (a_state ?L 2 [?l, ?l]))"
    using write_catch_outcomes[OF h1 a_session_sel(1) h3 h4 h5 h6, THEN conjunct2]
    by simp
  from a b c show ?thesis
    by (simp add: a_state_clearCache)
qed

text \<open>
  C3, as it is stated, fails. The request body breaks with the code \<open>RequestTimeout\<close>
  before any chunk is finished, so that the coordinator fails with that error, and
  \<open>listParts\<close>, which answered twice, now fails with an internal error: \<open>write\<close>
  does not resolve, it fails with the internal error, and the cache entry is still
  there.
\<close>

theorem write_rejects_when_refetch_fails:
  "Promise_all (timed
       (scripted_env (fading_script 2 [a_part 1 10]
          (ServiceError (Some ''InternalError'') (Some 500)) (Inr ''location'')))
       (a_session (Str ''100''))
       (fst (processUpload
          (scripted_env (fading_script 2 [a_part 1 10]
             (ServiceError (Some ''InternalError'') (Some 500)) (Inr ''location'')))
          (a_session (Str ''100''))
          (no_chunks (Some (ServiceError (Some ''RequestTimeout'') None))) 2 (Num 10)
          (a_state (Str ''100'') 2
             [ListParts ''tus'' ''a'' (Some ''mpu'') None,
              ListParts ''tus'' ''a'' (Some ''mpu'') None]))))
     = Inl (ServiceError (Some ''RequestTimeout'') None)
 \<and> write' (scripted_env (fading_script 2 [a_part 1 10]
              (ServiceError (Some ''InternalError'') (Some 500)) (Inr ''location'')))
      (no_chunks (Some (ServiceError (Some ''RequestTimeout'') None))) ''a''
      (a_state (Str ''100'') 0 [])
     = Some (Inl (ServiceError (Some ''InternalError'') (Some 500)),
             a_state (Str ''100'') 3
               [ListParts ''tus'' ''a'' (Some ''mpu'') None,
                ListParts ''tus'' ''a'' (Some ''mpu'') None,
                ListParts ''tus'' ''a'' (Some ''mpu'') None])
 \<and> cache (a_state (Str ''100'') (3::nat)
            [ListParts ''tus'' ''a'' (Some ''mpu'') None,
             ListParts ''tus'' ''a'' (Some ''mpu'') None,
             ListParts ''tus'' ''a'' (Some ''mpu'') None]) ''a''
     = Some (a_session (Str ''100''))"
  by (simp add: write'_def write_chain_def write_settle_def write_catch_def graceful_def
      timed_def Promise_all_def
      a_state_getMetadata fading_countParts fading_getOffset no_chunks_processUpload
      sort_and_filter_single eval_nat_numeral)

subsection \<open>The completion\<close>

text \<open>
  Let the three operations that start \<open>write\<close> succeed, all promises of the
  coordinator resolve, and the offset be fetched again. If the size of that offset is
  not the declared upload length, \<open>write\<close> returns the size and sends nothing more.
  If it is, and the offset carries its list of parts, \<open>completeMultipartUpload\<close> is
  sent with the tags and numbers of these parts; when it succeeds the cache entry is
  removed and \<open>write\<close> returns the size; when it fails with a code other than
  \<open>RequestTimeout\<close> and \<open>NoSuchUpload\<close>, the cache entry is removed and \<open>write\<close>
  fails with that error.
\<close>

lemma write_completion:
  assumes "getMetadata env file_id st = (Inr metadata, st1)" and "file' metadata = Some f"
    and "countParts env file_id st1 = Some (Inr n, st2)"
    and "getOffset env file_id st2 = Some (Inr initial_offset, st3)"
    and "processUpload env metadata rd (n + 1) (size' initial_offset) st3 = (ps, st4)"
    and "Promise_all (timed env metadata ps) = Inr vs"
    and "getOffset env file_id st4 = Some (Inr current_offset, st5)"
  shows "(\<not> strict_equals (Number_parseInt (upload_length f)) (size' current_offset)
           \<longrightarrow> write' env rd file_id st = Some (Inr (size' current_offset), st5))
       \<and> (strict_equals (Number_parseInt (upload_length f)) (size' current_offset)
           \<and> parts current_offset = Some ps1
           \<longrightarrow> (call_completeMultipartUpload env (bucket_name env) (id' f) (upload_id metadata)
                    (map (\<lambda>p. (ETag p, PartNumber p)) ps1) st5 = (Inr location, st6)
                  \<longrightarrow> write' env rd file_id st
                        = Some (Inr (size' current_offset), clearCache file_id st6)
                    \<and> cache (clearCache file_id st6) file_id = None
                    \<and> trace st6 = trace st5
                        @ [CompleteMultipartUpload (bucket_name env) (id' f) (upload_id metadata)
                             (map (\<lambda>p. (ETag p, PartNumber p)) ps1)])
             \<and> (call_completeMultipartUpload env (bucket_name env) (id' f) (upload_id metadata)
                    (map (\<lambda>p. (ETag p, PartNumber p)) ps1) st5 = (Inl e, st6)
                  \<and> code e \<noteq> Some ''RequestTimeout'' \<and> code e \<noteq> Some ''NoSuchUpload''
                  \<longrightarrow> write' env rd file_id st = Some (Inl e, clearCache file_id st6)))"
proof -
  have ch: "write_chain env rd file_id metadata n initial_offset st3 =
      Some (write_finish env metadata file_id current_offset st5)"
    using assms(5,6,7) by (simp add: write_chain_def write_settle_def)
  note wv = write_chain_value[OF assms(1,3,4)] and we = write_chain_error[OF assms(1,3,4)]
  have 1: "\<not> strict_equals (Number_parseInt (upload_length f)) (size' current_offset)
           \<longrightarrow> write' env rd file_id st = Some (Inr (size' current_offset), st5)"
    using wv[of rd "size' current_offset" st5] ch assms(2) by (simp add: write_finish_def)
  have 2: "strict_equals (Number_parseInt (upload_length f)) (size' current_offset)
           \<and> parts current_offset = Some ps1
           \<and> call_completeMultipartUpload env (bucket_name env) (id' f) (upload_id metadata)
                    (map (\<lambda>p. (ETag p, PartNumber p)) ps1) st5 = (Inr location, st6)
         \<longrightarrow> write' env rd file_id st = Some (Inr (size' current_offset), clearCache file_id st6)
           \<and> cache (clearCache file_id st6) file_id = None
           \<and> trace st6 = trace st5
                @ [CompleteMultipartUpload (bucket_name env) (id' f) (upload_id metadata)
                     (map (\<lambda>p. (ETag p, PartNumber p)) ps1)]"
    using wv[of rd "size' current_offset" "clearCache file_id st6"] ch assms(2)
    by (auto simp: write_finish_def finishMultipartUpload_def clearCache_def
        call_completeMultipartUpload_def sent_def)
  have 3: "strict_equals (Number_parseInt (upload_length f)) (size' current_offset)
           \<and> parts current_offset = Some ps1
           \<and> call_completeMultipartUpload env (bucket_name env) (id' f) (upload_id metadata)
                    (map (\<lambda>p. (ETag p, PartNumber p)) ps1) st5 = (Inl e, st6)
         \<longrightarrow> write' env rd file_id st = write_catch env file_id e st6"
    using we[of rd e st6] ch assms(2)
    by (auto simp: write_finish_def finishMultipartUpload_def)
  from 1 2 3 show ?thesis
    by (auto simp: write_catch_def graceful_iff)
qed

text \<open>
  Three runs: three chunks of which the last is final, and the upload is completed; an
  empty body on an upload whose offset is short of its length; an empty body on an
  upload whose offset has reached its length, where the completion fails with an
  internal error.
\<close>

lemma write_completion_runs:
  "write' (simulated_env three_sizes) three_chunks ''a'' (a_state (Str ''20971520'') [] [])
     = Some (Inr (Num 20971520),
         clearCache ''a''
           (a_state (Str ''20971520'')
              [\<lparr>PartNumber = 1, Size = 8388608, ETag = ''etag-c1''\<rparr>,
               \<lparr>PartNumber = 2, Size = 8388608, ETag = ''etag-c2''\<rparr>,
               \<lparr>PartNumber = 3, Size = 4194304, ETag = ''etag-c3''\<rparr>]
              [ListParts ''tus'' ''a'' (Some ''mpu'') None,
               ListParts ''tus'' ''a'' (Some ''mpu'') None,
               UploadPart ''tus'' ''a'' (Some ''mpu'') 1 ''c1'', FsRm ''c1'',
               UploadPart ''tus'' ''a'' (Some ''mpu'') 2 ''c2'', FsRm ''c2'',
               UploadPart ''tus'' ''a'' (Some ''mpu'') 3 ''c3'', FsRm ''c3'',
               ListParts ''tus'' ''a'' (Some ''mpu'') None,
               CompleteMultipartUpload ''tus'' ''a'' (Some ''mpu'')
                 [(''etag-c1'', 1), (''etag-c2'', 2), (''etag-c3'', 3)]]))
 \<and> write' (scripted_env (fading_script 5 [a_part 1 10]
              (ServiceError (Some ''InternalError'') (Some 500)) (Inr ''location'')))
      (no_chunks None) ''a'' (a_state (Str ''100'') 0 [])
     = Some (Inr (Num 10),
             a_state (Str ''100'') 3
               [ListParts ''tus'' ''a'' (Some ''mpu'') None,
                ListParts ''tus'' ''a'' (Some ''mpu'') None,
                ListParts ''tus'' ''a'' (Some ''mpu'') None])
 \<and> write' (scripted_env (fading_script 5 [a_part 1 100]
              (ServiceError (Some ''InternalError'') (Some 500))
              (Inl (ServiceError (Some ''InternalError'') (Some 500)))))
      (no_chunks None) ''a'' (a_state (Str ''100'') 0 [])
     = Some (Inl (ServiceError (Some ''InternalError'') (Some 500)),
             clearCache ''a''
               (a_state (Str ''100'') 3
                  [ListParts ''tus'' ''a'' (Some ''mpu'') None,
                   ListParts ''tus'' ''a'' (Some ''mpu'') None,
                   ListParts ''tus'' ''a'' (Some ''mpu'') None,
                   CompleteMultipartUpload ''tus'' ''a'' (Some ''mpu'') [(''etag'', 1)]]))"
proof -
  let ?l = "ListParts ''tus'' ''a'' (Some ''mpu'') None"
  \<comment> \<open>three chunks, the last one final: the upload is completed\<close>
  let ?sim = "simulated_env three_sizes"
  let ?A = "Str ''20971520''"
  let ?ps = "[\<lparr>PartNumber = 1, Size = 8388608, ETag = ''etag-c1''\<rparr>,
              \<lparr>PartNumber = 2, Size = 8388608, ETag = ''etag-c2''\<rparr>,
              \<lparr>PartNumber = 3, Size = 4194304, ETag = ''etag-c3''\<rparr>]"
  let ?tr = "[?l, ?l] @ [UploadPart ''tus'' ''a'' (Some ''mpu'') 1 ''c1'', FsRm ''c1'',
               UploadPart ''tus'' ''a'' (Some ''mpu'') 2 ''c2'', FsRm ''c2'',
               UploadPart ''tus'' ''a'' (Some ''mpu'') 3 ''c3'', FsRm ''c3'']"
  let ?ini = "\<lparr>file_props = Some (an_upload ?A), size' = Num 0, upload_length' = ?A,
      upload_defer_length' = Undefined, parts = Some []\<rparr>"
  let ?off = "\<lparr>file_props = Some (an_upload ?A), size' = Num 20971520, upload_length' = ?A,
      upload_defer_length' = Undefined, parts = Some ?ps\<rparr>"
  have a1: "getMetadata ?sim ''a'' (a_state ?A [] []) = (Inr (a_session ?A), a_state ?A [] [])"
    by (rule a_state_getMetadata)
  have a3: "countParts ?sim ''a'' (a_state ?A [] []) = Some (Inr 0, a_state ?A [] [?l])"
    by (simp add: sim_countParts sort_and_filter_Nil)
  have a4: "getOffset ?sim ''a'' (a_state ?A [] [?l]) = Some (Inr ?ini, a_state ?A [] [?l, ?l])"
    by (simp add: sim_getOffset sort_and_filter_Nil)
  have a5: "processUpload ?sim (a_session ?A) three_chunks (0 + 1) (size' ?ini)
      (a_state ?A [] [?l, ?l]) =
      ([Inr (Some ''etag-c1''), Inr (Some ''etag-c2''), Inr (Some ''etag-c3''), Inr None],
       a_state ?A ?ps ?tr)"
    using three_chunks_coordinator[of "[?l, ?l]"] by simp
  have a6: "Promise_all (timed ?sim (a_session ?A)
      [Inr (Some ''etag-c1''), Inr (Some ''etag-c2''), Inr (Some ''etag-c3''), Inr None])
      = Inr [Some ''etag-c1'', Some ''etag-c2'', Some ''etag-c3'', None]"
    by (simp add: timed_def Promise_all_def)
  have a7: "getOffset ?sim ''a'' (a_state ?A ?ps ?tr) = Some (Inr ?off, a_state ?A ?ps (?tr @ [?l]))"
    by (simp add: sim_getOffset three_parts_sorted)
  have a8: "strict_equals (Number_parseInt (upload_length (an_upload ?A))) (size' ?off)
      \<and> parts ?off = Some ?ps"
    by (simp add: parseInt_20MiB)
  have a9: "call_completeMultipartUpload ?sim (bucket_name ?sim) (id' (an_upload ?A))
      (upload_id (a_session ?A)) (map (\<lambda>p. (ETag p, PartNumber p)) ?ps) (a_state ?A ?ps (?tr @ [?l]))
      = (Inr ''location'',
         a_state ?A ?ps (?tr @ [?l, CompleteMultipartUpload ''tus'' ''a'' (Some ''mpu'')
                 [(''etag-c1'', 1), (''etag-c2'', 2), (''etag-c3'', 3)]]))"
    by (simp add: simulated_completeMultipartUpload simulated_bucket_name)
  note ta = write_completion[OF a1 a_session_sel(1) a3 a4 a5 a6 a7,
      THEN conjunct2, THEN mp, OF a8, THEN conjunct1, THEN mp, OF a9, THEN conjunct1]
  have A: "write' ?sim three_chunks ''a'' (a_state ?A [] [])
     = Some (Inr (Num 20971520),
         clearCache ''a''
           (a_state ?A ?ps
              [?l, ?l,
               UploadPart ''tus'' ''a'' (Some ''mpu'') 1 ''c1'', FsRm ''c1'',
               UploadPart ''tus'' ''a'' (Some ''mpu'') 2 ''c2'', FsRm ''c2'',
               UploadPart ''tus'' ''a'' (Some ''mpu'') 3 ''c3'', FsRm ''c3'',
               ?l,
               CompleteMultipartUpload ''tus'' ''a'' (Some ''mpu'')
                 [(''etag-c1'', 1), (''etag-c2'', 2), (''etag-c3'', 3)]]))"
    using ta by simp
  \<comment> \<open>nothing arrives and the offset is short of the length: no completion\<close>
  let ?B = "Str ''100''"
  let ?ie = "ServiceError (Some ''InternalError'') (Some 500)"
  let ?ea = "scripted_env (fading_script 5 [a_part 1 10] ?ie (Inr ''location''))"
  let ?ten = "\<lparr>file_props = Some (an_upload ?B), size' = Num 10, upload_length' = ?B,
      upload_defer_length' = Undefined, parts = Some [a_part 1 10]\<rparr>"
  have b1: "getMetadata ?ea ''a'' (a_state ?B 0 []) = (Inr (a_session ?B), a_state ?B 0 [])"
    by (rule a_state_getMetadata)
  have b3: "countParts ?ea ''a'' (a_state ?B 0 []) = Some (Inr 1, a_state ?B 1 [?l])"
    by (simp add: fading_countParts sort_and_filter_single)
  have b4: "getOffset ?ea ''a'' (a_state ?B 1 [?l]) = Some (Inr ?ten, a_state ?B 2 [?l, ?l])"
    by (simp add: fading_getOffset sort_and_filter_single eval_nat_numeral)
  have b5: "processUpload ?ea (a_session ?B) (no_chunks None) (1 + 1) (size' ?ten)
      (a_state ?B 2 [?l, ?l]) = ([Inr None], a_state ?B 2 [?l, ?l])"
    by (simp add: no_chunks_processUpload)
  have b6: "Promise_all (timed ?ea (a_session ?B) [Inr None]) = Inr [None]"
    by (simp add: timed_def Promise_all_def)
  have b7: "getOffset ?ea ''a'' (a_state ?B 2 [?l, ?l]) = Some (Inr ?ten, a_state ?B 3 [?l, ?l, ?l])"
    by (simp add: fading_getOffset sort_and_filter_single eval_nat_numeral)
  have b8: "\<not> strict_equals (Number_parseInt (upload_length (an_upload ?B))) (size' ?ten)"
    by (simp add: parseInt_100)
  note tb = write_completion[OF b1 a_session_sel(1) b3 b4 b5 b6 b7,
      THEN conjunct1, THEN mp, OF b8]
  have B: "write' ?ea (no_chunks None) ''a'' (a_state ?B 0 [])
      = Some (Inr (Num 10), a_state ?B 3 [?l, ?l, ?l])"
    using tb by simp
  \<comment> \<open>the completion fails\<close>
  let ?full = "\<lparr>file_props = Some (an_upload ?B), size' = Num 100, upload_length' = ?B,
      upload_defer_length' = Undefined, parts = Some [a_part 1 100]\<rparr>"
  let ?cm = "CompleteMultipartUpload ''tus'' ''a'' (Some ''mpu'') [(''etag'', 1)]"
  let ?eb = "scripted_env (fading_script 5 [a_part 1 100] ?ie (Inl ?ie))"
  have c1: "getMetadata ?eb ''a'' (a_state ?B 0 []) = (Inr (a_session ?B), a_state ?B 0 [])"
    by (rule a_state_getMetadata)
  have c3: "countParts ?eb ''a'' (a_state ?B 0 []) = Some (Inr 1, a_state ?B 1 [?l])"
    by (simp add: fading_countParts sort_and_filter_single)
  have c4: "getOffset ?eb ''a'' (a_state ?B 1 [?l]) = Some (Inr ?full, a_state ?B 2 [?l, ?l])"
    by (simp add: fading_getOffset sort_and_filter_single eval_nat_numeral)
  have c5: "processUpload ?eb (a_session ?B) (no_chunks None) (1 + 1) (size' ?full)
      (a_state ?B 2 [?l, ?l]) = ([Inr None], a_state ?B 2 [?l, ?l])"
    by (simp add: no_chunks_processUpload)
  have c6: "Promise_all (timed ?eb (a_session ?B) [Inr None]) = Inr [None]"
    by (simp add: timed_def Promise_all_def)
  have c7: "getOffset ?eb ''a'' (a_state ?B 2 [?l, ?l])
      = Some (Inr ?full, a_state ?B 3 [?l, ?l, ?l])"
    by (simp add: fading_getOffset sort_and_filter_single eval_nat_numeral)
  have c8: "strict_equals (Number_parseInt (upload_length (an_upload ?B))) (size' ?full)
      \<and> parts ?full = Some [a_part 1 100]"
    by (simp add: parseInt_100)
  have c9: "call_completeMultipartUpload ?eb (bucket_name ?eb) (id' (an_upload ?B))
      (upload_id (a_session ?B)) (map (\<lambda>p. (ETag p, PartNumber p)) [a_part 1 100])
      (a_state ?B 3 [?l, ?l, ?l]) = (Inl ?ie, a_state ?B 3 [?l, ?l, ?l, ?cm])
      \<and> code ?ie \<noteq> Some ''RequestTimeout'' \<and> code ?ie \<noteq> Some ''NoSuchUpload''"
    by (simp add: call_completeMultipartUpload_def sent_def scripted_env_def
        scripted_client_def fading_script_def)
  note tc = write_completion[OF c1 a_session_sel(1) c3 c4 c5 c6 c7,
      THEN conjunct2, THEN mp, OF c8, THEN conjunct2, THEN mp, OF c9]
  have C: "write' ?eb (no_chunks None) ''a'' (a_state ?B 0 [])
      = Some (Inl ?ie, clearCache ''a'' (a_state ?B 3 [?l, ?l, ?l, ?cm]))"
    using tc by simp
  from A B C show ?thesis
    by simp
qed

text \<open>
  C4. The claim is that a failure of the completion reaches the caller. It does not when
  the error of \<open>completeMultipartUpload\<close> has the code \<open>NoSuchUpload\<close> (or
  \<open>RequestTimeout\<close>): the handler of lines 485-488 throws the error again, and the
  handler of \<open>catch\<close>, written for a request body that was closed early, takes it
  for one. Here the body is empty, the parts listed have reached the
  upload length of 100, \<open>completeMultipartUpload\<close> is sent and fails with the code
  \<open>NoSuchUpload\<close>, and so does the \<open>listParts\<close> that follows: \<open>write\<close> resolves,
  with the declared length, and the cache entry stays.
\<close>

theorem write_resolves_when_completion_fails:
  "on_completeMultipartUpload
     (fading_script 3 [a_part 1 100] (ServiceError (Some ''NoSuchUpload'') (Some 404))
        (Inl (ServiceError (Some ''NoSuchUpload'') (Some 404))))
     = Inl (ServiceError (Some ''NoSuchUpload'') (Some 404))
 \<and> write' (scripted_env
        (fading_script 3 [a_part 1 100] (ServiceError (Some ''NoSuchUpload'') (Some 404))
           (Inl (ServiceError (Some ''NoSuchUpload'') (Some 404)))))
      (no_chunks None) ''a'' (a_state (Str ''100'') 0 [])
     = Some (Inr (Str ''100''),
             a_state (Str ''100'') 4
               [ListParts ''tus'' ''a'' (Some ''mpu'') None,
                ListParts ''tus'' ''a'' (Some ''mpu'') None,
                ListParts ''tus'' ''a'' (Some ''mpu'') None,
                CompleteMultipartUpload ''tus'' ''a'' (Some ''mpu'') [(''etag'', 1)],
                ListParts ''tus'' ''a'' (Some ''mpu'') None])"
proof (intro conjI)
  show "on_completeMultipartUpload
     (fading_script 3 [a_part 1 100] (ServiceError (Some ''NoSuchUpload'') (Some 404))
        (Inl (ServiceError (Some ''NoSuchUpload'') (Some 404))))
     = Inl (ServiceError (Some ''NoSuchUpload'') (Some 404))"
    by (simp add: fading_script_def)
qed (simp add: write'_def write_chain_def write_settle_def write_catch_def graceful_def
      timed_def Promise_all_def
      write_finish_def a_state_getMetadata fading_countParts fading_getOffset fading_finish
      no_chunks_processUpload sort_and_filter_single eval_nat_numeral parseInt_100)

end
